theory Spec2Isabelle
  imports Main "HOL-Library.AList"
begin

section \<open>The JSON graph migrator of \<^verbatim>\<open>tvm/ir/json_compact.py\<close>\<close>

text \<open>
  The module upgrades a serialized graph (a JSON envelope with an attribute dictionary
  holding \<^verbatim>\<open>tvm_version\<close> and a list \<^verbatim>\<open>nodes\<close> of node dictionaries) from version
  0.6, 0.7 or 0.8 to version 0.9. All work is done by in-place mutation of Python
  dictionaries and of the list \<^verbatim>\<open>nodes\<close>; a rule receives a reference to the visited
  node and a reference to the whole list, and may change any node through the list.
  Since the outcome depends on whether two references denote the same dictionary, node
  dictionaries live in an explicit heap and the list holds addresses.
\<close>

subsection \<open>Python values\<close>

text \<open>
  Exceptions of the Python code. \<open>ValueError\<close> and \<open>KeyError\<close> carry their message or key.
\<close>

datatype error = AssertionError | KeyError string | IndexError | ValueError string

text \<open>
  A node dictionary: the key \<^verbatim>\<open>type_key\<close>, the optional key \<^verbatim>\<open>attrs\<close> (a dictionary from
  strings to strings; \<open>None\<close> when the node has no such key) and the remaining top-level
  keys with string values (\<^verbatim>\<open>global_key\<close>, \<^verbatim>\<open>repr_str\<close>). Dictionaries are association
  lists in insertion order: assignment is \<open>AList.update\<close> (an existing key keeps its place,
  a new key goes last), deletion is \<open>AList.delete\<close>, lookup is \<open>map_of\<close>. Every node is
  taken to have the key \<^verbatim>\<open>type_key\<close>, as every node the serializer writes has; keys whose
  values are not strings (the \<^verbatim>\<open>data\<close> of arrays and maps) are not touched by any rule and
  are left out.
\<close>

record node =
  type_key :: string
  attrs :: "(string \<times> string) list option"
  other_keys :: "(string \<times> string) list"

text \<open>
  The heap of node dictionaries and the Python list \<^verbatim>\<open>nodes\<close> of references into it.
  An address is an index into \<open>heap\<close>; a new dictionary is allocated at the end.
\<close>

record store =
  heap :: "node list"
  nodes :: "nat list"

text \<open>
  The envelope \<^verbatim>\<open>data\<close>: \<^verbatim>\<open>data["attrs"]\<close> and \<^verbatim>\<open>data["nodes"]\<close> (with the heap). The
  other keys of the envelope (\<^verbatim>\<open>root\<close>, \<^verbatim>\<open>b64ndarrays\<close>) are never read or written.
\<close>

record data =
  dattrs :: "(string \<times> string) list"
  st :: store

text \<open>What \<^verbatim>\<open>json.loads\<close> reads and \<^verbatim>\<open>json.dumps\<close> writes: the same content as plain values.\<close>

record snapshot =
  sattrs :: "(string \<times> string) list"
  snodes :: "node list"

type_synonym 'a result = "error + 'a"

definition ebind :: "'a result \<Rightarrow> ('a \<Rightarrow> 'b result) \<Rightarrow> 'b result" where
  "ebind m f = (case m of Inl e \<Rightarrow> Inl e | Inr x \<Rightarrow> f x)"

text \<open>\<^verbatim>\<open>s.startswith(p)\<close>\<close>

definition startswith :: "string \<Rightarrow> string \<Rightarrow> bool" where
  "startswith s p = (take (length p) s = p)"

text \<open>\<^verbatim>\<open>f"{n}"\<close> for a non-negative integer: its decimal digits.\<close>

definition digit_char :: "nat \<Rightarrow> char" where
  "digit_char d = ''0123456789'' ! d"

fun str_of_nat :: "nat \<Rightarrow> string" where
  "str_of_nat n = (if n < 10 then [digit_char n] else str_of_nat (n div 10) @ [digit_char (n mod 10)])"

declare str_of_nat.simps [simp del]

text \<open>
  \<^verbatim>\<open>repr(s)\<close> of a string of code points below 256, as the interpreter prints it in the
  message of \<^verbatim>\<open>int\<close>: double quotes when the string has a single quote and no double
  quote, single quotes otherwise; the quote in use and the backslash are escaped, tab,
  newline and return have their letters, and the code points that are not printable
  (below 32, 127 to 160, and 173) are written \<^verbatim>\<open>\xhh\<close>.
\<close>

definition hex_char :: "nat \<Rightarrow> char" where
  "hex_char d = ''0123456789abcdef'' ! d"

definition repr_char :: "char \<Rightarrow> char \<Rightarrow> string" where
  "repr_char q c =
     (let n = (of_char c :: nat) in
      if c = q \<or> c = CHR 0x5C then [CHR 0x5C, c]
      else if n = 9 then [CHR 0x5C, CHR ''t'']
      else if n = 10 then [CHR 0x5C, CHR ''n'']
      else if n = 13 then [CHR 0x5C, CHR ''r'']
      else if n < 32 \<or> (127 \<le> n \<and> n \<le> 160) \<or> n = 173
        then [CHR 0x5C, CHR ''x'', hex_char (n div 16), hex_char (n mod 16)]
      else [c])"

definition py_repr :: "string \<Rightarrow> string" where
  "py_repr s =
     (let q = (if CHR 0x27 \<in> set s \<and> CHR 0x22 \<notin> set s then CHR 0x22 else CHR 0x27)
      in [q] @ concat (map (repr_char q) s) @ [q])"

text \<open>
  \<^verbatim>\<open>int(s)\<close> on a string of code points below 256, as CPython 3.11 computes it. Leading
  blanks are skipped (tab, line feed, vertical tab, form feed, return, space, and the code
  points 133 and 160), then one sign is read, then the longest run of digits and
  underscores. The run must be non-empty, must neither start nor end with an underscore
  and must have no two underscores in a row. More than 4300 digits in the run are
  refused with an error of their own, before what follows the run is looked at. After the
  run only blanks may follow. The message of an invalid literal shows the first 200
  characters of the repr of the whole string.
\<close>

definition is_space :: "char \<Rightarrow> bool" where
  "is_space c = (of_char c \<in> {9::nat, 10, 11, 12, 13, 32, 133, 160})"

definition is_digit :: "char \<Rightarrow> bool" where
  "is_digit c = (48 \<le> (of_char c :: nat) \<and> (of_char c :: nat) \<le> 57)"

definition digit_val :: "char \<Rightarrow> nat" where
  "digit_val c = of_char c - 48"

definition in_run :: "char \<Rightarrow> bool" where
  "in_run c = (is_digit c \<or> c = CHR ''_'')"

fun double_underscore :: "string \<Rightarrow> bool" where
  "double_underscore (c # d # cs) = ((c = CHR ''_'' \<and> d = CHR ''_'') \<or> double_underscore (d # cs))"
| "double_underscore [c] = False"
| "double_underscore [] = False"

definition invalid_literal :: "string \<Rightarrow> error" where
  "invalid_literal s = ValueError (''invalid literal for int() with base 10: '' @ take 200 (py_repr s))"

definition exceeds_limit :: "nat \<Rightarrow> error" where
  "exceeds_limit n = ValueError
     (''Exceeds the limit (4300 digits) for integer string conversion: value has '' @ str_of_nat n
      @ '' digits; use sys.set_int_max_str_digits() to increase the limit'')"

definition py_int :: "string \<Rightarrow> int result" where
  "py_int s =
     (let t = dropWhile is_space s;
          neg = (t \<noteq> [] \<and> hd t = CHR ''-'');
          u = (if t \<noteq> [] \<and> (hd t = CHR ''-'' \<or> hd t = CHR ''+'') then tl t else t);
          run = takeWhile in_run u;
          rest = dropWhile in_run u;
          digits = filter is_digit run
      in if run = [] \<or> hd run = CHR ''_'' \<or> last run = CHR ''_'' \<or> double_underscore run
           then Inl (invalid_literal s)
         else if 4300 < length digits then Inl (exceeds_limit (length digits))
         else if dropWhile is_space rest \<noteq> [] then Inl (invalid_literal s)
         else Inr ((if neg then - 1 else 1) * int (foldl (\<lambda>a c. 10 * a + digit_val c) 0 digits)))"

text \<open>
  \<^verbatim>\<open>xs[k]\<close> for a Python integer \<open>k\<close>: a negative index counts from the end; out of range
  is \<^verbatim>\<open>IndexError\<close> (\<open>None\<close> here). The result is the position read.
\<close>

definition py_index :: "'a list \<Rightarrow> int \<Rightarrow> nat option" where
  "py_index xs k =
     (if 0 \<le> k \<and> k < int (length xs) then Some (nat k)
      else if k < 0 \<and> - int (length xs) \<le> k then Some (nat (k + int (length xs)))
      else None)"

subsection \<open>Access to a node through a reference\<close>

text \<open>\<^verbatim>\<open>item["attrs"]\<close>\<close>

definition get_attrs :: "nat \<Rightarrow> store \<Rightarrow> ((string \<times> string) list) result" where
  "get_attrs a s = (case attrs (heap s ! a) of None \<Rightarrow> Inl (KeyError ''attrs'') | Some al \<Rightarrow> Inr al)"

text \<open>\<^verbatim>\<open>item["attrs"][k]\<close>\<close>

definition get_attr :: "nat \<Rightarrow> string \<Rightarrow> store \<Rightarrow> string result" where
  "get_attr a k s = ebind (get_attrs a s)
     (\<lambda>al. case map_of al k of None \<Rightarrow> Inl (KeyError k) | Some v \<Rightarrow> Inr v)"

text \<open>\<^verbatim>\<open>item["attrs"][k] = v\<close>\<close>

definition set_attr :: "nat \<Rightarrow> string \<Rightarrow> string \<Rightarrow> store \<Rightarrow> store result" where
  "set_attr a k v s = ebind (get_attrs a s)
     (\<lambda>al. Inr (s\<lparr>heap := (heap s)[a := (heap s ! a)\<lparr>attrs := Some (AList.update k v al)\<rparr>]\<rparr>))"

text \<open>\<^verbatim>\<open>del item["attrs"][k]\<close>\<close>

definition del_attr :: "nat \<Rightarrow> string \<Rightarrow> store \<Rightarrow> store result" where
  "del_attr a k s = ebind (get_attrs a s)
     (\<lambda>al. case map_of al k of None \<Rightarrow> Inl (KeyError k)
        | Some _ \<Rightarrow> Inr (s\<lparr>heap := (heap s)[a := (heap s ! a)\<lparr>attrs := Some (AList.delete k al)\<rparr>]\<rparr>))"

text \<open>\<^verbatim>\<open>item["type_key"] = t\<close>\<close>

definition set_type_key :: "nat \<Rightarrow> string \<Rightarrow> store \<Rightarrow> store" where
  "set_type_key a t s = s\<lparr>heap := (heap s)[a := (heap s ! a)\<lparr>type_key := t\<rparr>]\<rparr>"

text \<open>\<^verbatim>\<open>nodes.append(val)\<close> for a freshly built dictionary \<open>val\<close>.\<close>

definition append_node :: "node \<Rightarrow> store \<Rightarrow> store" where
  "append_node val s = s\<lparr>heap := heap s @ [val], nodes := nodes s @ [length (heap s)]\<rparr>"

subsection \<open>The rewrite rules\<close>

text \<open>
  A rule takes the reference \<^verbatim>\<open>item\<close> and the list \<^verbatim>\<open>nodes\<close> (here with the heap), and
  returns a reference; the store it leaves behind is returned with it.
\<close>

type_synonym rule = "nat \<Rightarrow> store \<Rightarrow> (nat \<times> store) result"

text \<open>\<^verbatim>\<open>_initialize_virtual_device\<close> (0.8 to 0.9)\<close>

definition initialize_virtual_device :: rule where
  "initialize_virtual_device item s = ebind (get_attrs item s)
     (\<lambda>al. if map_of al ''virtual_device_'' = None
            then ebind (set_attr item ''virtual_device_'' ''0'' s) (\<lambda>s1. Inr (item, s1))
            else Inr (item, s))"

text \<open>\<^verbatim>\<open>_initialize_module_attributes\<close> (0.7 to 0.8)\<close>

definition initialize_module_attributes :: rule where
  "initialize_module_attributes item s =
     (if type_key (heap s ! item) \<noteq> ''IRModule'' then Inl AssertionError
      else ebind (get_attrs item s)
        (\<lambda>al. if map_of al ''attrs'' = None
               then ebind (set_attr item ''attrs'' ''0'' s) (\<lambda>s1. Inr (item, s1))
               else Inr (item, s)))"

text \<open>
  \<^verbatim>\<open>_ftype_var\<close> (0.6 to 0.7), statement by statement. An exception leaves the dictionaries
  as the statements before it have changed them, and the caller of the updater holds
  them; so \<open>ftype_var_exc\<close> returns, with the exception, the store at the moment it is
  raised. \<open>raised_in s\<close> attaches the store to the exception of a single access.
\<close>

definition raised_in :: "store \<Rightarrow> 'a result \<Rightarrow> (error \<times> store) + 'a" where
  "raised_in s m = (case m of Inl e \<Rightarrow> Inl (e, s) | Inr x \<Rightarrow> Inr x)"

definition xbind :: "(error \<times> store) + 'a \<Rightarrow> ('a \<Rightarrow> (error \<times> store) + 'b) \<Rightarrow> (error \<times> store) + 'b" where
  "xbind m f = (case m of Inl r \<Rightarrow> Inl r | Inr x \<Rightarrow> f x)"

definition ftype_var_exc :: "nat \<Rightarrow> store \<Rightarrow> (error \<times> store) + (nat \<times> store)" where
  "ftype_var_exc item s =
     xbind (raised_in s (get_attr item ''var'' s)) (\<lambda>v.
     xbind (raised_in s (py_int v)) (\<lambda>vindex.
     xbind (raised_in s (case py_index (nodes s) vindex of
                           None \<Rightarrow> Inl IndexError | Some j \<Rightarrow> Inr j)) (\<lambda>j.
     xbind (raised_in s (get_attr (nodes s ! j) ''name'' s)) (\<lambda>name.
     xbind (raised_in s (set_attr item ''name_hint'' name s)) (\<lambda>s1.
     xbind (Inr (set_type_key (nodes s1 ! j) '''' s1)) (\<lambda>s2.
     xbind (raised_in s2 (del_attr item ''var'' s2)) (\<lambda>s3.
     if \<not> startswith (type_key (heap s3 ! item)) ''relay.'' then Inl (AssertionError, s3)
     else Inr (item, set_type_key item (drop (length ''relay.'') (type_key (heap s3 ! item))) s3))))))))"

text \<open>
  The rule as the applicator runs it: like the other rules it returns the exception alone,
  since \<^verbatim>\<open>upgrade_json\<close> gives nothing back when one is raised.
\<close>

definition ftype_var :: rule where
  "ftype_var item s = (case ftype_var_exc item s of Inl (e, _) \<Rightarrow> Inl e | Inr r \<Rightarrow> Inr r)"

text \<open>\<^verbatim>\<open>_rename(new_name)\<close>\<close>

definition rename :: "string \<Rightarrow> rule" where
  "rename new_name item s = Inr (item, set_type_key item new_name s)"

text \<open>\<^verbatim>\<open>_update_tir_var(new_name)\<close>\<close>

definition update_tir_var :: "string \<Rightarrow> rule" where
  "update_tir_var new_name item s =
     ebind (Inr (set_type_key item new_name s)) (\<lambda>s1.
     ebind (set_attr item ''type_annotation'' ''0'' s1) (\<lambda>s2. Inr (item, s2)))"

text \<open>\<^verbatim>\<open>_update_global_key\<close>: the keys are top-level keys of the node, not attributes.\<close>

definition update_global_key :: rule where
  "update_global_key item s =
     (case map_of (other_keys (heap s ! item)) ''global_key'' of
        None \<Rightarrow> Inr (item, s)
      | Some g \<Rightarrow> Inr (item, s\<lparr>heap := (heap s)[item := (heap s ! item)
          \<lparr>other_keys := AList.delete ''global_key'' (AList.update ''repr_str'' g (other_keys (heap s ! item)))\<rparr>]\<rparr>))"

text \<open>
  \<^verbatim>\<open>_update_from_std_str(key)\<close>. The node that
  \<^verbatim>\<open>json.loads(tvm.ir.save_json(tvm.runtime.String(str_val)))\<close> has at its root is built by
  the runtime library, outside this module; it is the parameter \<open>enc\<close>.
\<close>

definition update_from_std_str :: "(string \<Rightarrow> node) \<Rightarrow> string \<Rightarrow> rule" where
  "update_from_std_str enc key item s =
     ebind (get_attr item key s) (\<lambda>str_val.
     let val = enc str_val;
         sidx = length (nodes s);
         s1 = append_node val s
     in ebind (set_attr item key (str_of_nat sidx) s1) (\<lambda>s2. Inr (item, s2)))"

subsection \<open>The rule applicator \<^verbatim>\<open>create_updater\<close>\<close>

text \<open>
  A value of the dictionary \<^verbatim>\<open>node_map\<close> is a function or a list of functions; the
  dictionary is an association list looked up with \<open>map_of\<close>.
\<close>

datatype entry = Fn rule | Lst "rule list"

type_synonym node_map = "(string \<times> entry) list"

text \<open>\<^verbatim>\<open>for fpass in f: item = fpass(item, nodes)\<close>\<close>

fun apply_chain :: "rule list \<Rightarrow> rule" where
  "apply_chain [] item s = Inr (item, s)"
| "apply_chain (fpass # fs) item s =
     ebind (fpass item s) (\<lambda>(item', s'). apply_chain fs item' s')"

text \<open>
  The body of the loop for the index \<open>idx\<close>, where the iterator has just read
  \<^verbatim>\<open>item = nodes[idx]\<close>. The assignment \<^verbatim>\<open>nodes[idx] = item\<close> raises \<^verbatim>\<open>IndexError\<close>
  when the list no longer has that position.
\<close>

definition visit :: "node_map \<Rightarrow> nat \<Rightarrow> store \<Rightarrow> store result" where
  "visit nm idx s =
     (let item = nodes s ! idx in
      ebind (case map_of nm (type_key (heap s ! item)) of
               None \<Rightarrow> Inr (item, s)
             | Some (Lst f) \<Rightarrow> apply_chain f item s
             | Some (Fn f) \<Rightarrow> f item s)
        (\<lambda>(item', s'). if idx < length (nodes s')
                        then Inr (s'\<lparr>nodes := (nodes s')[idx := item']\<rparr>)
                        else Inl IndexError))"

text \<open>
  \<^verbatim>\<open>for idx, item in enumerate(nodes)\<close>. The list iterator of Python keeps a position and,
  at every step, compares it with the length the list has at that moment; the loop ends
  when the position has reached it. A loop that never ends has the value \<open>None\<close>. The last
  argument records the values \<open>idx\<close> has taken, in order; nothing reads it.
\<close>

partial_function (option) updater_loop ::
  "node_map \<Rightarrow> nat \<Rightarrow> store \<Rightarrow> nat list \<Rightarrow> ((store \<times> nat list) result) option" where
  "updater_loop nm idx s visited =
     (if idx < length (nodes s)
      then (case visit nm idx s of
              Inl e \<Rightarrow> Some (Inl e)
            | Inr s' \<Rightarrow> updater_loop nm (Suc idx) s' (visited @ [idx]))
      else Some (Inr (s, visited)))"

declare updater_loop.simps [code]

text \<open>\<^verbatim>\<open>_updater(data)\<close> of \<^verbatim>\<open>create_updater(node_map, from_ver, to_ver)\<close>\<close>

definition create_updater :: "node_map \<Rightarrow> string \<Rightarrow> string \<Rightarrow> data \<Rightarrow> (data result) option" where
  "create_updater nm from_ver to_ver d =
     (case map_of (dattrs d) ''tvm_version'' of
        None \<Rightarrow> Some (Inl (KeyError ''tvm_version''))
      | Some v \<Rightarrow>
          if \<not> startswith v from_ver then Some (Inl AssertionError)
          else (case updater_loop nm 0 (st d) [] of
                  None \<Rightarrow> None
                | Some (Inl e) \<Rightarrow> Some (Inl e)
                | Some (Inr (s', _)) \<Rightarrow>
                    Some (Inr (d\<lparr>st := s', dattrs := AList.update ''tvm_version'' to_ver (dattrs d)\<rparr>))))"

subsection \<open>The three version steps\<close>

text \<open>Sequencing of two steps: an exception or a loop that never ends stops the chain.\<close>

definition rbind :: "('a result) option \<Rightarrow> ('a \<Rightarrow> ('b result) option) \<Rightarrow> ('b result) option" where
  "rbind m f = (case m of None \<Rightarrow> None | Some (Inl e) \<Rightarrow> Some (Inl e) | Some (Inr x) \<Rightarrow> f x)"

text \<open>\<^verbatim>\<open>create_updater_08_to_09\<close>\<close>

definition node_map_08_to_09 :: node_map where
  "node_map_08_to_09 =
    [(''GlobalVar'', Fn initialize_virtual_device),
     (''relay.Var'', Fn initialize_virtual_device),
     (''relay.Function'', Fn initialize_virtual_device),
     (''relay.Tuple'', Fn initialize_virtual_device),
     (''relay.Call'', Fn initialize_virtual_device),
     (''relay.Let'', Fn initialize_virtual_device),
     (''relay.If'', Fn initialize_virtual_device),
     (''relay.TupleGetItem'', Fn initialize_virtual_device),
     (''relay.RefCreate'', Fn initialize_virtual_device),
     (''relay.RefRead'', Fn initialize_virtual_device),
     (''relay.RefWrite'', Fn initialize_virtual_device),
     (''relay.Match'', Fn initialize_virtual_device),
     (''relay.Constant'', Fn initialize_virtual_device)]"

definition create_updater_08_to_09 :: "data \<Rightarrow> (data result) option" where
  "create_updater_08_to_09 = create_updater node_map_08_to_09 ''0.8'' ''0.9''"

text \<open>\<^verbatim>\<open>create_updater_07_to_08\<close>\<close>

definition node_map_07_to_08 :: node_map where
  "node_map_07_to_08 = [(''IRModule'', Fn initialize_module_attributes)]"

definition create_updater_07_to_08 :: "data \<Rightarrow> (data result) option" where
  "create_updater_07_to_08 = create_updater node_map_07_to_08 ''0.7'' ''0.8''"

text \<open>\<^verbatim>\<open>create_updater_06_to_07\<close>\<close>

definition node_map_06_to_07 :: "(string \<Rightarrow> node) \<Rightarrow> node_map" where
  "node_map_06_to_07 enc =
    [(''SourceName'', Fn update_global_key),
     (''EnvFunc'', Fn update_global_key),
     (''relay.Op'', Lst [update_global_key, rename ''Op'']),
     (''relay.TypeVar'', Lst [ftype_var, update_from_std_str enc ''name_hint'']),
     (''TypeVar'', Fn (update_from_std_str enc ''name_hint'')),
     (''relay.Id'', Lst [update_from_std_str enc ''name_hint'']),
     (''relay.GlobalTypeVar'', Lst [ftype_var, update_from_std_str enc ''name_hint'']),
     (''GlobalTypeVar'', Fn (update_from_std_str enc ''name_hint'')),
     (''relay.Type'', Fn (rename ''Type'')),
     (''relay.TupleType'', Fn (rename ''TupleType'')),
     (''relay.TypeConstraint'', Fn (rename ''TypeConstraint'')),
     (''relay.FuncType'', Fn (rename ''FuncType'')),
     (''relay.IncompleteType'', Fn (rename ''IncompleteType'')),
     (''relay.TypeRelation'', Fn (rename ''TypeRelation'')),
     (''relay.TypeCall'', Fn (rename ''TypeCall'')),
     (''relay.Constructor'', Fn (update_from_std_str enc ''name_hint'')),
     (''relay.Module'', Fn (rename ''IRModule'')),
     (''relay.SourceName'', Fn (rename ''SourceName'')),
     (''relay.Span'', Fn (rename ''Span'')),
     (''relay.GlobalVar'', Lst [rename ''GlobalVar'', update_from_std_str enc ''name_hint'']),
     (''GlobalVar'', Fn (update_from_std_str enc ''name_hint'')),
     (''relay.Pass'', Fn (rename ''transform.Pass'')),
     (''relay.PassInfo'', Fn (rename ''transform.PassInfo'')),
     (''relay.PassContext'', Fn (rename ''transform.PassContext'')),
     (''relay.ModulePass'', Fn (rename ''transform.ModulePass'')),
     (''relay.Sequential'', Fn (rename ''transform.Sequential'')),
     (''StrMap'', Fn (rename ''Map'')),
     (''Variable'', Lst [update_tir_var ''tir.Var'', update_from_std_str enc ''name'']),
     (''SizeVar'', Lst [update_tir_var ''tir.SizeVar'', update_from_std_str enc ''name'']),
     (''StringImm'', Lst [rename ''tir.StringImm'', update_from_std_str enc ''value'']),
     (''Cast'', Fn (rename ''tir.Cast'')),
     (''Add'', Fn (rename ''tir.Add'')),
     (''Sub'', Fn (rename ''tir.Sub'')),
     (''Mul'', Fn (rename ''tir.Mul'')),
     (''Div'', Fn (rename ''tir.Div'')),
     (''Mod'', Fn (rename ''tir.Mod'')),
     (''FloorDiv'', Fn (rename ''tir.FloorDiv'')),
     (''FloorMod'', Fn (rename ''tir.FloorMod'')),
     (''Min'', Fn (rename ''tir.Min'')),
     (''Max'', Fn (rename ''tir.Max'')),
     (''EQ'', Fn (rename ''tir.EQ'')),
     (''NE'', Fn (rename ''tir.NE'')),
     (''LT'', Fn (rename ''tir.LT'')),
     (''LE'', Fn (rename ''tir.LE'')),
     (''GT'', Fn (rename ''tir.GT'')),
     (''GE'', Fn (rename ''tir.GE'')),
     (''And'', Fn (rename ''tir.And'')),
     (''Or'', Fn (rename ''tir.Or'')),
     (''Not'', Fn (rename ''tir.Not'')),
     (''Select'', Fn (rename ''tir.Select'')),
     (''BufferLoad'', Fn (rename ''tir.BufferLoad'')),
     (''Ramp'', Fn (rename ''tir.Ramp'')),
     (''Broadcast'', Fn (rename ''tir.Broadcast'')),
     (''Shuffle'', Fn (rename ''tir.Shuffle'')),
     (''Call'', Lst [rename ''tir.Call'', update_from_std_str enc ''name'']),
     (''Let'', Fn (rename ''tir.Let'')),
     (''Any'', Fn (rename ''tir.Any'')),
     (''LetStmt'', Fn (rename ''tir.LetStmt'')),
     (''AssertStmt'', Fn (rename ''tir.AssertStmt'')),
     (''BufferStore'', Fn (rename ''tir.BufferStore'')),
     (''BufferRealize'', Fn (rename ''tir.BufferRealize'')),
     (''Allocate'', Fn (rename ''tir.Allocate'')),
     (''IfThenElse'', Fn (rename ''tir.IfThenElse'')),
     (''Evaluate'', Fn (rename ''tir.Evaluate'')),
     (''Prefetch'', Fn (rename ''tir.Prefetch'')),
     (''AttrStmt'', Lst [rename ''tir.AttrStmt'', update_from_std_str enc ''attr_key'']),
     (''Layout'', Lst [rename ''tir.Layout'', update_from_std_str enc ''name'']),
     (''Buffer'', Lst [rename ''tir.Buffer'', update_from_std_str enc ''name'',
                      update_from_std_str enc ''scope''])]"

definition create_updater_06_to_07 :: "(string \<Rightarrow> node) \<Rightarrow> data \<Rightarrow> (data result) option" where
  "create_updater_06_to_07 enc = create_updater (node_map_06_to_07 enc) ''0.6'' ''0.7''"

subsection \<open>The driver \<^verbatim>\<open>upgrade_json\<close>\<close>

text \<open>
  \<^verbatim>\<open>json.loads\<close> builds a fresh dictionary for every element of the list, so the list
  holds the addresses \<open>0, 1, \<dots>\<close> of a heap with exactly these nodes; \<^verbatim>\<open>json.dumps\<close>
  writes the node each element of the list refers to. The text of the JSON itself
  (indentation, escapes) is not modelled.
\<close>

definition json_loads :: "snapshot \<Rightarrow> data" where
  "json_loads snap =
     \<lparr>dattrs = sattrs snap, st = \<lparr>heap = snodes snap, nodes = [0 ..< length (snodes snap)]\<rparr>\<rparr>"

definition json_dumps :: "data \<Rightarrow> snapshot" where
  "json_dumps d = \<lparr>sattrs = dattrs d, snodes = map (\<lambda>a. heap (st d) ! a) (nodes (st d))\<rparr>"

definition upgrade_json :: "(string \<Rightarrow> node) \<Rightarrow> snapshot \<Rightarrow> (snapshot result) option" where
  "upgrade_json enc json_str =
     (let d = json_loads json_str in
      case map_of (dattrs d) ''tvm_version'' of
        None \<Rightarrow> Some (Inl (KeyError ''tvm_version''))
      | Some from_version \<Rightarrow>
          rbind
            (if startswith from_version ''0.6'' then
               rbind (rbind (create_updater_06_to_07 enc d) create_updater_07_to_08) create_updater_08_to_09
             else if startswith from_version ''0.7'' then
               rbind (create_updater_07_to_08 d) create_updater_08_to_09
             else if startswith from_version ''0.8'' then
               create_updater_08_to_09 d
             else Some (Inl (ValueError (''Cannot update from version '' @ from_version))))
            (\<lambda>d'. Some (Inr (json_dumps d'))))"

text \<open>
  The node the runtime library of this version builds for a string: a node of type
  \<^verbatim>\<open>runtime.String\<close> that holds the string under \<^verbatim>\<open>repr_str\<close> and has no \<^verbatim>\<open>attrs\<close>.
  It instantiates the parameter \<open>enc\<close> in the examples.
\<close>

definition runtime_string :: "string \<Rightarrow> node" where
  "runtime_string str_val =
     \<lparr>type_key = ''runtime.String'', attrs = None, other_keys = [(''repr_str'', str_val)]\<rparr>"

subsection \<open>Notions used in the proofs\<close>

text \<open>
  The table right after \<^verbatim>\<open>json.loads\<close>: entry \<open>i\<close> refers to the dictionary at address
  \<open>i\<close>, and every dictionary of the heap is in the table. No two entries share a
  dictionary.
\<close>

definition identity_table :: "store \<Rightarrow> bool" where
  "identity_table s = (nodes s = [0 ..< length (heap s)])"

text \<open>A node and what it is after zero or more assignments of the empty \<^verbatim>\<open>type_key\<close>.\<close>

definition same_or_tomb :: "node \<Rightarrow> node \<Rightarrow> bool" where
  "same_or_tomb n n' = (n' = n \<or> n' = n\<lparr>type_key := ''''\<rparr>)"

text \<open>
  What a rule leaves alone, up to a relation \<open>R\<close> on nodes: run on an entry of such a
  table, it returns the reference it was given, the table stays of that form and does not
  shrink, and every other node of the heap is \<open>R\<close>-related to what it was.
\<close>

definition rule_frame :: "(node \<Rightarrow> node \<Rightarrow> bool) \<Rightarrow> rule \<Rightarrow> bool" where
  "rule_frame R f =
     (\<forall>item s item' s'. f item s = Inr (item', s') \<and> identity_table s \<and> item < length (heap s) \<longrightarrow>
        item' = item \<and> identity_table s' \<and> length (heap s) \<le> length (heap s')
        \<and> (\<forall>b < length (heap s). b \<noteq> item \<longrightarrow> R (heap s ! b) (heap s' ! b)))"

text \<open>A property of every rule of a rule set.\<close>

fun entry_all :: "(rule \<Rightarrow> bool) \<Rightarrow> entry \<Rightarrow> bool" where
  "entry_all P (Fn f) = P f"
| "entry_all P (Lst fs) = list_all P fs"

definition all_rules :: "(rule \<Rightarrow> bool) \<Rightarrow> node_map \<Rightarrow> bool" where
  "all_rules P nm = list_all (\<lambda>(k, e). entry_all P e) nm"

text \<open>
  The exceptions a version step can raise: any but a \<^verbatim>\<open>ValueError\<close> whose message does
  not start as one of the two of \<^verbatim>\<open>int\<close> does.
\<close>

definition step_error :: "error \<Rightarrow> bool" where
  "step_error e = (case e of
       ValueError m \<Rightarrow> take 7 m = ''invalid'' \<or> take 7 m = ''Exceeds''
     | _ \<Rightarrow> True)"

definition rule_errors :: "rule \<Rightarrow> bool" where
  "rule_errors f = (\<forall>item s e. f item s = Inl e \<longrightarrow> step_error e)"

section \<open>Properties\<close>

lemmas access_defs =
  ebind_def get_attrs_def get_attr_def set_attr_def del_attr_def set_type_key_def append_node_def

lemmas py_int_defs =
  py_int_def Let_def is_space_def is_digit_def digit_val_def in_run_def

lemmas ftype_var_defs = ftype_var_def ftype_var_exc_def raised_in_def xbind_def

lemma py_int_0: "py_int ''0'' = Inr 0"
  by (simp add: py_int_defs)

subsection \<open>The driver on the terminal version\<close>

text \<open>
  Claim C2, as the code has it. A snapshot that declares version \<^verbatim>\<open>0.9\<close> starts with none
  of \<^verbatim>\<open>0.6\<close>, \<^verbatim>\<open>0.7\<close>, \<^verbatim>\<open>0.8\<close>, so \<^verbatim>\<open>upgrade_json\<close> takes its last branch: no rule set
  is selected, and the call raises \<^verbatim>\<open>ValueError\<close> instead of returning the content.
\<close>

theorem upgrade_json_terminal_version_rejected:
  assumes "map_of (sattrs snap) ''tvm_version'' = Some ''0.9''"
  shows "upgrade_json enc snap = Some (Inl (ValueError ''Cannot update from version 0.9''))"
  using assms by (simp add: upgrade_json_def json_loads_def startswith_def rbind_def)

theorem upgrade_json_terminal_version_rejected_witness:
  "map_of (sattrs \<lparr>sattrs = [(''tvm_version'', ''0.9'')], snodes = []\<rparr>) ''tvm_version'' = Some ''0.9''
   \<and> upgrade_json runtime_string \<lparr>sattrs = [(''tvm_version'', ''0.9'')], snodes = []\<rparr>
       = Some (Inl (ValueError ''Cannot update from version 0.9''))"
  using upgrade_json_terminal_version_rejected
    [of "\<lparr>sattrs = [(''tvm_version'', ''0.9'')], snodes = []\<rparr>" runtime_string]
  by simp

text \<open>
  The claim as written (the content comes back unchanged) fails on a snapshot with one
  node that is already in the format of 0.9.
\<close>

theorem upgrade_json_terminal_version_counterexample:
  "upgrade_json runtime_string
     \<lparr>sattrs = [(''tvm_version'', ''0.9'')],
      snodes = [\<lparr>type_key = ''relay.Var'', attrs = Some [(''virtual_device_'', ''0'')], other_keys = []\<rparr>]\<rparr>
   = Some (Inl (ValueError ''Cannot update from version 0.9''))"
  by (simp add: upgrade_json_def json_loads_def startswith_def rbind_def)

subsection \<open>The default-fill rules\<close>

text \<open>
  Claim C9, as the code has it. Only \<^verbatim>\<open>_initialize_module_attributes\<close> asserts the type
  of the node: on any type other than \<^verbatim>\<open>IRModule\<close> it raises \<^verbatim>\<open>AssertionError\<close>.
  \<^verbatim>\<open>_initialize_virtual_device\<close> has no such check and fills the attribute on a node of
  any type. Both return the node and the table unchanged when the attribute is there.
\<close>

theorem default_fill_rules:
  "(type_key (heap s ! item) \<noteq> ''IRModule'' \<longrightarrow> initialize_module_attributes item s = Inl AssertionError)
   \<and> (type_key (heap s ! item) = ''IRModule'' \<and> attrs (heap s ! item) = Some al \<and> map_of al ''attrs'' \<noteq> None
        \<longrightarrow> initialize_module_attributes item s = Inr (item, s))
   \<and> (attrs (heap s ! item) = Some al \<and> map_of al ''virtual_device_'' \<noteq> None
        \<longrightarrow> initialize_virtual_device item s = Inr (item, s))
   \<and> (attrs (heap s ! item) = Some al \<and> map_of al ''virtual_device_'' = None
        \<longrightarrow> initialize_virtual_device item s =
            Inr (item, s\<lparr>heap := (heap s)[item := (heap s ! item)
                   \<lparr>attrs := Some (AList.update ''virtual_device_'' ''0'' al)\<rparr>]\<rparr>))"
  by (auto simp add: initialize_module_attributes_def initialize_virtual_device_def access_defs)

theorem default_fill_rules_witness:
  "initialize_module_attributes 0
       \<lparr>heap = [\<lparr>type_key = ''relay.Module'', attrs = Some [], other_keys = []\<rparr>], nodes = [0]\<rparr>
     = Inl AssertionError
   \<and> initialize_module_attributes 0
       \<lparr>heap = [\<lparr>type_key = ''IRModule'', attrs = Some [(''attrs'', ''7'')], other_keys = []\<rparr>], nodes = [0]\<rparr>
     = Inr (0, \<lparr>heap = [\<lparr>type_key = ''IRModule'', attrs = Some [(''attrs'', ''7'')], other_keys = []\<rparr>], nodes = [0]\<rparr>)
   \<and> initialize_virtual_device 0
       \<lparr>heap = [\<lparr>type_key = ''relay.Var'', attrs = Some [(''virtual_device_'', ''7'')], other_keys = []\<rparr>], nodes = [0]\<rparr>
     = Inr (0, \<lparr>heap = [\<lparr>type_key = ''relay.Var'', attrs = Some [(''virtual_device_'', ''7'')], other_keys = []\<rparr>], nodes = [0]\<rparr>)
   \<and> initialize_virtual_device 0
       \<lparr>heap = [\<lparr>type_key = ''relay.Var'', attrs = Some [], other_keys = []\<rparr>], nodes = [0]\<rparr>
     = Inr (0, \<lparr>heap = [\<lparr>type_key = ''relay.Var'', attrs = Some [(''virtual_device_'', ''0'')], other_keys = []\<rparr>], nodes = [0]\<rparr>)"
  using default_fill_rules [of "\<lparr>heap = [\<lparr>type_key = ''relay.Module'', attrs = Some [], other_keys = []\<rparr>], nodes = [0]\<rparr>" 0 "[]"]
        default_fill_rules [of "\<lparr>heap = [\<lparr>type_key = ''IRModule'', attrs = Some [(''attrs'', ''7'')], other_keys = []\<rparr>], nodes = [0]\<rparr>" 0 "[(''attrs'', ''7'')]"]
        default_fill_rules [of "\<lparr>heap = [\<lparr>type_key = ''relay.Var'', attrs = Some [(''virtual_device_'', ''7'')], other_keys = []\<rparr>], nodes = [0]\<rparr>" 0 "[(''virtual_device_'', ''7'')]"]
        default_fill_rules [of "\<lparr>heap = [\<lparr>type_key = ''relay.Var'', attrs = Some [], other_keys = []\<rparr>], nodes = [0]\<rparr>" 0 "[]"]
  by simp

text \<open>
  The claim as written (every default-fill rule asserts the type) fails for the rule of
  0.8 to 0.9 on a node of a type it is not registered for.
\<close>

theorem virtual_device_fill_no_assert_counterexample:
  "initialize_virtual_device 0
       \<lparr>heap = [\<lparr>type_key = ''IRModule'', attrs = Some [], other_keys = []\<rparr>], nodes = [0]\<rparr>
     = Inr (0, \<lparr>heap = [\<lparr>type_key = ''IRModule'', attrs = Some [(''virtual_device_'', ''0'')], other_keys = []\<rparr>], nodes = [0]\<rparr>)"
  by (simp add: initialize_virtual_device_def access_defs)

subsection \<open>The cross-reference rule\<close>

text \<open>
  Claim C8, as the code has it. \<^verbatim>\<open>_ftype_var\<close> on a node whose \<^verbatim>\<open>var\<close> attribute reads
  as a non-negative integer below the length of the table, where the table entry at that
  index is another node than the current one. The name is read before the referenced
  node is tombstoned: when the referenced node has no \<^verbatim>\<open>attrs\<close> or no \<^verbatim>\<open>name\<close>, the rule
  raises \<^verbatim>\<open>KeyError\<close> and the table is as it was before the call, the referenced node
  with its type. When the name is there and the type of the current node starts with
  \<^verbatim>\<open>relay.\<close>, the current node gets the referenced name as \<^verbatim>\<open>name_hint\<close>, loses \<^verbatim>\<open>var\<close>
  and the prefix of its type, and the referenced node gets the empty type and is
  otherwise as before. When the type lacks the prefix, \<^verbatim>\<open>AssertionError\<close> is raised after
  the copy, the tombstone and the deletion have been done.
\<close>

theorem ftype_var_rewrite:
  assumes "attrs (heap s ! item) = Some al"
    and "map_of al ''var'' = Some v"
    and "py_int v = Inr k"
    and "0 \<le> k" and "k < int (length (nodes s))"
    and "b = nodes s ! nat k"
    and "b \<noteq> item" and "item < length (heap s)" and "b < length (heap s)"
  shows "(attrs (heap s ! b) = None \<longrightarrow>
            ftype_var_exc item s = Inl (KeyError ''attrs'', s))
       \<and> (attrs (heap s ! b) = Some bl \<and> map_of bl ''name'' = None \<longrightarrow>
            ftype_var_exc item s = Inl (KeyError ''name'', s))
       \<and> (attrs (heap s ! b) = Some bl \<and> map_of bl ''name'' = Some name
            \<and> startswith (type_key (heap s ! item)) ''relay.'' \<longrightarrow>
            ftype_var_exc item s =
              Inr (item, s\<lparr>heap := (heap s)
                [b := (heap s ! b)\<lparr>type_key := ''''\<rparr>,
                 item := (heap s ! item)
                   \<lparr>attrs := Some (AList.delete ''var'' (AList.update ''name_hint'' name al)),
                    type_key := drop (length ''relay.'') (type_key (heap s ! item))\<rparr>]\<rparr>)
            \<and> ftype_var item s =
              Inr (item, s\<lparr>heap := (heap s)
                [b := (heap s ! b)\<lparr>type_key := ''''\<rparr>,
                 item := (heap s ! item)
                   \<lparr>attrs := Some (AList.delete ''var'' (AList.update ''name_hint'' name al)),
                    type_key := drop (length ''relay.'') (type_key (heap s ! item))\<rparr>]\<rparr>))
       \<and> (attrs (heap s ! b) = Some bl \<and> map_of bl ''name'' = Some name
            \<and> \<not> startswith (type_key (heap s ! item)) ''relay.'' \<longrightarrow>
            ftype_var_exc item s =
              Inl (AssertionError, s\<lparr>heap := (heap s)
                [b := (heap s ! b)\<lparr>type_key := ''''\<rparr>,
                 item := (heap s ! item)
                   \<lparr>attrs := Some (AList.delete ''var'' (AList.update ''name_hint'' name al))\<rparr>]\<rparr>)
            \<and> ftype_var item s = Inl AssertionError)"
proof (intro conjI impI)
  assume "attrs (heap s ! b) = None"
  with assms show "ftype_var_exc item s = Inl (KeyError ''attrs'', s)"
    by (simp add: ftype_var_defs access_defs py_index_def)
next
  assume "attrs (heap s ! b) = Some bl \<and> map_of bl ''name'' = None"
  with assms show "ftype_var_exc item s = Inl (KeyError ''name'', s)"
    by (simp add: ftype_var_defs access_defs py_index_def)
next
  assume h: "attrs (heap s ! b) = Some bl \<and> map_of bl ''name'' = Some name
            \<and> startswith (type_key (heap s ! item)) ''relay.''"
  with assms show e: "ftype_var_exc item s =
              Inr (item, s\<lparr>heap := (heap s)
                [b := (heap s ! b)\<lparr>type_key := ''''\<rparr>,
                 item := (heap s ! item)
                   \<lparr>attrs := Some (AList.delete ''var'' (AList.update ''name_hint'' name al)),
                    type_key := drop (length ''relay.'') (type_key (heap s ! item))\<rparr>]\<rparr>)"
    by (simp add: ftype_var_defs access_defs py_index_def update_conv' list_update_swap)
  then show "ftype_var item s =
              Inr (item, s\<lparr>heap := (heap s)
                [b := (heap s ! b)\<lparr>type_key := ''''\<rparr>,
                 item := (heap s ! item)
                   \<lparr>attrs := Some (AList.delete ''var'' (AList.update ''name_hint'' name al)),
                    type_key := drop (length ''relay.'') (type_key (heap s ! item))\<rparr>]\<rparr>)"
    by (simp add: ftype_var_def)
next
  assume h: "attrs (heap s ! b) = Some bl \<and> map_of bl ''name'' = Some name
            \<and> \<not> startswith (type_key (heap s ! item)) ''relay.''"
  with assms show e: "ftype_var_exc item s =
              Inl (AssertionError, s\<lparr>heap := (heap s)
                [b := (heap s ! b)\<lparr>type_key := ''''\<rparr>,
                 item := (heap s ! item)
                   \<lparr>attrs := Some (AList.delete ''var'' (AList.update ''name_hint'' name al))\<rparr>]\<rparr>)"
    by (simp add: ftype_var_defs access_defs py_index_def update_conv' list_update_swap)
  then show "ftype_var item s = Inl AssertionError"
    by (simp add: ftype_var_def)
qed

theorem ftype_var_rewrite_witness:
  "ftype_var_exc 1 \<lparr>heap = [\<lparr>type_key = ''Variable'', attrs = None, other_keys = []\<rparr>,
                            \<lparr>type_key = ''relay.TypeVar'', attrs = Some [(''var'', ''0'')], other_keys = []\<rparr>],
                    nodes = [0, 1]\<rparr>
     = Inl (KeyError ''attrs'',
            \<lparr>heap = [\<lparr>type_key = ''Variable'', attrs = None, other_keys = []\<rparr>,
                     \<lparr>type_key = ''relay.TypeVar'', attrs = Some [(''var'', ''0'')], other_keys = []\<rparr>],
             nodes = [0, 1]\<rparr>)
   \<and> ftype_var_exc 1 \<lparr>heap = [\<lparr>type_key = ''Variable'', attrs = Some [], other_keys = []\<rparr>,
                            \<lparr>type_key = ''relay.TypeVar'', attrs = Some [(''var'', ''0'')], other_keys = []\<rparr>],
                    nodes = [0, 1]\<rparr>
     = Inl (KeyError ''name'',
            \<lparr>heap = [\<lparr>type_key = ''Variable'', attrs = Some [], other_keys = []\<rparr>,
                     \<lparr>type_key = ''relay.TypeVar'', attrs = Some [(''var'', ''0'')], other_keys = []\<rparr>],
             nodes = [0, 1]\<rparr>)
   \<and> ftype_var 1 \<lparr>heap = [\<lparr>type_key = ''Variable'', attrs = Some [(''name'', ''x'')], other_keys = []\<rparr>,
                        \<lparr>type_key = ''relay.TypeVar'', attrs = Some [(''var'', ''0'')], other_keys = []\<rparr>],
                nodes = [0, 1]\<rparr>
     = Inr (1, \<lparr>heap = [\<lparr>type_key = [], attrs = Some [(''name'', ''x'')], other_keys = []\<rparr>,
                       \<lparr>type_key = ''TypeVar'', attrs = Some [(''name_hint'', ''x'')], other_keys = []\<rparr>],
               nodes = [0, 1]\<rparr>)
   \<and> ftype_var_exc 1 \<lparr>heap = [\<lparr>type_key = ''Variable'', attrs = Some [(''name'', ''x'')], other_keys = []\<rparr>,
                            \<lparr>type_key = ''TypeVar'', attrs = Some [(''var'', ''0'')], other_keys = []\<rparr>],
                    nodes = [0, 1]\<rparr>
     = Inl (AssertionError,
            \<lparr>heap = [\<lparr>type_key = [], attrs = Some [(''name'', ''x'')], other_keys = []\<rparr>,
                     \<lparr>type_key = ''TypeVar'', attrs = Some [(''name_hint'', ''x'')], other_keys = []\<rparr>],
             nodes = [0, 1]\<rparr>)"
  using ftype_var_rewrite
    [of "\<lparr>heap = [\<lparr>type_key = ''Variable'', attrs = None, other_keys = []\<rparr>,
                  \<lparr>type_key = ''relay.TypeVar'', attrs = Some [(''var'', ''0'')], other_keys = []\<rparr>],
          nodes = [0, 1]\<rparr>" 1 "[(''var'', ''0'')]" "''0''" 0 0 "[]" "''x''"]
    ftype_var_rewrite
    [of "\<lparr>heap = [\<lparr>type_key = ''Variable'', attrs = Some [], other_keys = []\<rparr>,
                  \<lparr>type_key = ''relay.TypeVar'', attrs = Some [(''var'', ''0'')], other_keys = []\<rparr>],
          nodes = [0, 1]\<rparr>" 1 "[(''var'', ''0'')]" "''0''" 0 0 "[]" "''x''"]
    ftype_var_rewrite
    [of "\<lparr>heap = [\<lparr>type_key = ''Variable'', attrs = Some [(''name'', ''x'')], other_keys = []\<rparr>,
                  \<lparr>type_key = ''relay.TypeVar'', attrs = Some [(''var'', ''0'')], other_keys = []\<rparr>],
          nodes = [0, 1]\<rparr>" 1 "[(''var'', ''0'')]" "''0''" 0 0 "[(''name'', ''x'')]" "''x''"]
    ftype_var_rewrite
    [of "\<lparr>heap = [\<lparr>type_key = ''Variable'', attrs = Some [(''name'', ''x'')], other_keys = []\<rparr>,
                  \<lparr>type_key = ''TypeVar'', attrs = Some [(''var'', ''0'')], other_keys = []\<rparr>],
          nodes = [0, 1]\<rparr>" 1 "[(''var'', ''0'')]" "''0''" 0 0 "[(''name'', ''x'')]" "''x''"]
  by (simp add: py_int_0 startswith_def)

text \<open>
  The claim as written asks nothing of the referenced entry but to be in bounds. When
  the index is the node's own, the assignment of the empty type hits the current node,
  and the assertion on its type fails.
\<close>

theorem ftype_var_self_reference_counterexample:
  "ftype_var 0 \<lparr>heap = [\<lparr>type_key = ''relay.TypeVar'',
                         attrs = Some [(''var'', ''0''), (''name'', ''x'')], other_keys = []\<rparr>],
                nodes = [0]\<rparr> = Inl AssertionError"
  by (simp add: ftype_var_defs access_defs py_int_defs py_index_def startswith_def)

subsection \<open>Tombstones\<close>

lemma ftype_var_result:
  assumes "attrs (heap s ! item) = Some al"
    and "map_of al ''var'' = Some v"
    and "py_int v = Inr k"
    and "0 \<le> k" and "k < int (length (nodes s))"
    and "b = nodes s ! nat k"
    and "b \<noteq> item" and "item < length (heap s)" and "b < length (heap s)"
    and "attrs (heap s ! b) = Some bl"
    and "map_of bl ''name'' = Some name"
    and "startswith (type_key (heap s ! item)) ''relay.''"
  shows "ftype_var item s =
           Inr (item, s\<lparr>heap := (heap s)
             [b := (heap s ! b)\<lparr>type_key := ''''\<rparr>,
              item := (heap s ! item)
                \<lparr>attrs := Some (AList.delete ''var'' (AList.update ''name_hint'' name al)),
                 type_key := drop (length ''relay.'') (type_key (heap s ! item))\<rparr>]\<rparr>)"
  using assms
  by (simp add: ftype_var_defs access_defs py_index_def update_conv' list_update_swap)

text \<open>
  Claim C10. When \<^verbatim>\<open>_ftype_var\<close> succeeds on a node that refers to another node \<open>b\<close>, the
  node \<open>b\<close> afterwards is the node it was with the empty \<^verbatim>\<open>type_key\<close>: its attributes and
  its other keys are intact. A second node \<open>c\<close> that refers to the same, now tombstoned,
  node is rewritten with success as well and receives the original \<^verbatim>\<open>name\<close>.
\<close>

theorem tombstone_keeps_fields:
  assumes "attrs (heap s ! item) = Some al"
    and "map_of al ''var'' = Some v"
    and "py_int v = Inr k"
    and "0 \<le> k" and "k < int (length (nodes s))"
    and "b = nodes s ! nat k"
    and "b \<noteq> item" and "item < length (heap s)" and "b < length (heap s)"
    and "attrs (heap s ! b) = Some bl"
    and "map_of bl ''name'' = Some name"
    and "startswith (type_key (heap s ! item)) ''relay.''"
    and "c \<noteq> item" and "c \<noteq> b" and "c < length (heap s)"
    and "attrs (heap s ! c) = Some cl"
    and "map_of cl ''var'' = Some v"
    and "startswith (type_key (heap s ! c)) ''relay.''"
  shows "case ftype_var item s of
           Inl e \<Rightarrow> False
         | Inr (item', s1) \<Rightarrow>
             heap s1 ! b = (heap s ! b)\<lparr>type_key := ''''\<rparr>
             \<and> (case ftype_var c s1 of
                   Inl e \<Rightarrow> False
                 | Inr (c', s2) \<Rightarrow>
                     get_attr c ''name_hint'' s2 = Inr name
                     \<and> heap s2 ! b = (heap s ! b)\<lparr>type_key := ''''\<rparr>)"
proof -
  let ?s1 = "s\<lparr>heap := (heap s)
             [b := (heap s ! b)\<lparr>type_key := ''''\<rparr>,
              item := (heap s ! item)
                \<lparr>attrs := Some (AList.delete ''var'' (AList.update ''name_hint'' name al)),
                 type_key := drop (length ''relay.'') (type_key (heap s ! item))\<rparr>]\<rparr>"
  have r1: "ftype_var item s = Inr (item, ?s1)"
    using assms(1-12) by (rule ftype_var_result)
  have h1b: "heap ?s1 ! b = (heap s ! b)\<lparr>type_key := ''''\<rparr>"
    using assms by simp
  have h1c: "heap ?s1 ! c = heap s ! c"
    using assms by simp
  let ?s2 = "?s1\<lparr>heap := (heap ?s1)
             [b := (heap ?s1 ! b)\<lparr>type_key := ''''\<rparr>,
              c := (heap ?s1 ! c)
                \<lparr>attrs := Some (AList.delete ''var'' (AList.update ''name_hint'' name cl)),
                 type_key := drop (length ''relay.'') (type_key (heap ?s1 ! c))\<rparr>]\<rparr>"
  have r2: "ftype_var c ?s1 = Inr (c, ?s2)"
    by (rule ftype_var_result [where al = cl and v = v and k = k and bl = bl])
       (use assms in \<open>simp_all\<close>)
  have g: "get_attr c ''name_hint'' ?s2 = Inr name"
    using assms by (simp add: access_defs update_conv')
  have h2b: "heap ?s2 ! b = (heap s ! b)\<lparr>type_key := ''''\<rparr>"
    using assms by simp
  show ?thesis
    unfolding r1 using h1b r2 g h2b by simp
qed

theorem tombstone_keeps_fields_witness:
  "(case ftype_var 1
          \<lparr>heap = [\<lparr>type_key = ''Variable'', attrs = Some [(''name'', ''x'')], other_keys = []\<rparr>,
                   \<lparr>type_key = ''relay.TypeVar'', attrs = Some [(''var'', ''0'')], other_keys = []\<rparr>,
                   \<lparr>type_key = ''relay.GlobalTypeVar'', attrs = Some [(''var'', ''0'')], other_keys = []\<rparr>],
           nodes = [0, 1, 2]\<rparr> of
      Inl e \<Rightarrow> False
    | Inr (item', s1) \<Rightarrow>
        heap s1 ! 0 = \<lparr>type_key = [], attrs = Some [(''name'', ''x'')], other_keys = []\<rparr>
        \<and> (case ftype_var 2 s1 of
              Inl e \<Rightarrow> False
            | Inr (c', s2) \<Rightarrow>
                get_attr 2 ''name_hint'' s2 = Inr ''x''
                \<and> heap s2 ! 0 = \<lparr>type_key = [], attrs = Some [(''name'', ''x'')], other_keys = []\<rparr>))"
  using tombstone_keeps_fields
    [of "\<lparr>heap = [\<lparr>type_key = ''Variable'', attrs = Some [(''name'', ''x'')], other_keys = []\<rparr>,
                  \<lparr>type_key = ''relay.TypeVar'', attrs = Some [(''var'', ''0'')], other_keys = []\<rparr>,
                  \<lparr>type_key = ''relay.GlobalTypeVar'', attrs = Some [(''var'', ''0'')], other_keys = []\<rparr>],
          nodes = [0, 1, 2]\<rparr>" 1 "[(''var'', ''0'')]" "''0''" 0 0 "[(''name'', ''x'')]" "''x''" 2
        "[(''var'', ''0'')]"]
  by (simp add: py_int_0 startswith_def ftype_var_defs access_defs py_index_def update_conv')

subsection \<open>Chains of rules\<close>



subsection \<open>The indices a pass visits\<close>

lemma visit_keeps_index:
  "visit nm idx s = Inr s' \<Longrightarrow> idx < length (nodes s')"
  by (auto simp add: visit_def ebind_def Let_def split: sum.splits prod.splits if_splits)

lemma updater_loop_trace:
  assumes "updater_loop nm idx s visited = Some r"
  shows "idx \<le> length (nodes s) \<longrightarrow>
         (\<forall>s' visited'. r = Inr (s', visited') \<longrightarrow>
            visited' = visited @ [idx ..< length (nodes s')] \<and> idx \<le> length (nodes s'))"
proof (rule updater_loop.raw_induct
    [where P = "\<lambda>nm idx s visited r. idx \<le> length (nodes s) \<longrightarrow>
         (\<forall>s' visited'. r = Inr (s', visited') \<longrightarrow>
            visited' = visited @ [idx ..< length (nodes s')] \<and> idx \<le> length (nodes s'))",
     OF _ assms])
  fix loop :: "node_map \<Rightarrow> nat \<Rightarrow> store \<Rightarrow> nat list \<Rightarrow> ((store \<times> nat list) result) option"
  fix nm idx s visited r
  assume IH: "\<And>nm idx s visited r. loop nm idx s visited = Some r \<Longrightarrow>
         idx \<le> length (nodes s) \<longrightarrow>
         (\<forall>s' visited'. r = Inr (s', visited') \<longrightarrow>
            visited' = visited @ [idx ..< length (nodes s')] \<and> idx \<le> length (nodes s'))"
  assume body: "(if idx < length (nodes s)
      then (case visit nm idx s of
              Inl e \<Rightarrow> Some (Inl e)
            | Inr s' \<Rightarrow> loop nm (Suc idx) s' (visited @ [idx]))
      else Some (Inr (s, visited))) = Some r"
  show "idx \<le> length (nodes s) \<longrightarrow>
         (\<forall>s' visited'. r = Inr (s', visited') \<longrightarrow>
            visited' = visited @ [idx ..< length (nodes s')] \<and> idx \<le> length (nodes s'))"
  proof (cases "idx < length (nodes s)")
    case False
    with body show ?thesis by auto
  next
    case True
    show ?thesis
    proof (cases "visit nm idx s")
      case (Inl e)
      with True body show ?thesis by auto
    next
      case (Inr s1)
      with True body have rec: "loop nm (Suc idx) s1 (visited @ [idx]) = Some r" by simp
      from Inr have le: "Suc idx \<le> length (nodes s1)"
        using visit_keeps_index by fastforce
      from IH [OF rec] le show ?thesis
        by (auto simp add: upt_conv_Cons)
    qed
  qed
qed

text \<open>
  Claim C1, as the code has it. The loop compares its position with the current length
  of the list at every step, so a pass that ends has visited every index of the table as
  it is at the end: the nodes that rules appended during the pass are visited in that
  same pass, after the nodes that were there at the start.
\<close>

theorem updater_loop_visits_whole_final_table:
  assumes "updater_loop nm 0 s [] = Some (Inr (s', visited))"
  shows "visited = [0 ..< length (nodes s')]"
  using updater_loop_trace [OF assms] by simp

theorem updater_loop_visits_whole_final_table_witness:
  "updater_loop [(''Variable'', Fn (update_from_std_str runtime_string ''name''))] 0
      \<lparr>heap = [\<lparr>type_key = ''Variable'', attrs = Some [(''name'', ''x'')], other_keys = []\<rparr>], nodes = [0]\<rparr> []
    = Some (Inr (\<lparr>heap = [\<lparr>type_key = ''Variable'', attrs = Some [(''name'', ''1'')], other_keys = []\<rparr>,
                           \<lparr>type_key = ''runtime.String'', attrs = None, other_keys = [(''repr_str'', ''x'')]\<rparr>],
                   nodes = [0, 1]\<rparr>, [0, 1]))
   \<and> [0, 1] = [0 ..< length (nodes \<lparr>heap = [\<lparr>type_key = ''Variable'', attrs = Some [(''name'', ''1'')], other_keys = []\<rparr>,
                           \<lparr>type_key = ''runtime.String'', attrs = None, other_keys = [(''repr_str'', ''x'')]\<rparr>],
                   nodes = [0, 1]\<rparr>)]"
proof -
  have run: "updater_loop [(''Variable'', Fn (update_from_std_str runtime_string ''name''))] 0
      \<lparr>heap = [\<lparr>type_key = ''Variable'', attrs = Some [(''name'', ''x'')], other_keys = []\<rparr>], nodes = [0]\<rparr> []
    = Some (Inr (\<lparr>heap = [\<lparr>type_key = ''Variable'', attrs = Some [(''name'', ''1'')], other_keys = []\<rparr>,
                           \<lparr>type_key = ''runtime.String'', attrs = None, other_keys = [(''repr_str'', ''x'')]\<rparr>],
                   nodes = [0, 1]\<rparr>, [0, 1]))"
    by (simp add: updater_loop.simps visit_def update_from_std_str_def runtime_string_def access_defs
          Let_def str_of_nat.simps digit_char_def)
  from updater_loop_visits_whole_final_table [OF run] run show ?thesis by simp
qed

text \<open>
  The claim as written (only the indices below the length at the start are visited)
  fails on a table of one node whose rule appends a node of a type that has a rule of
  its own: the pass visits index 1 too and renames the appended node.
\<close>

theorem updater_loop_appended_node_visited_counterexample:
  "updater_loop [(''Variable'', Fn (update_from_std_str runtime_string ''name'')),
                 (''runtime.String'', Fn (rename ''Visited''))] 0
      \<lparr>heap = [\<lparr>type_key = ''Variable'', attrs = Some [(''name'', ''x'')], other_keys = []\<rparr>], nodes = [0]\<rparr> []
    = Some (Inr (\<lparr>heap = [\<lparr>type_key = ''Variable'', attrs = Some [(''name'', ''1'')], other_keys = []\<rparr>,
                           \<lparr>type_key = ''Visited'', attrs = None, other_keys = [(''repr_str'', ''x'')]\<rparr>],
                   nodes = [0, 1]\<rparr>, [0, 1]))"
  by (simp add: updater_loop.simps visit_def update_from_std_str_def rename_def runtime_string_def access_defs
        Let_def str_of_nat.simps digit_char_def)

subsection \<open>Promotion of an attribute to a node\<close>

text \<open>The digits written by \<^verbatim>\<open>f"{sidx}"\<close> are read back by \<^verbatim>\<open>int\<close> as the same number.\<close>

lemma digit_char_props:
  assumes "d < 10"
  shows "is_digit (digit_char d) \<and> digit_val (digit_char d) = d \<and> \<not> is_space (digit_char d)
         \<and> digit_char d \<noteq> CHR ''-'' \<and> digit_char d \<noteq> CHR ''+'' \<and> digit_char d \<noteq> CHR ''_''"
proof -
  from assms have "d = 0 \<or> d = 1 \<or> d = 2 \<or> d = 3 \<or> d = 4 \<or> d = 5 \<or> d = 6 \<or> d = 7 \<or> d = 8 \<or> d = 9"
    by arith
  then show ?thesis
    by (elim disjE) (simp_all add: digit_char_def is_digit_def digit_val_def is_space_def)
qed

lemma str_of_nat_digits:
  "list_all (\<lambda>c. is_digit c \<and> \<not> is_space c \<and> c \<noteq> CHR ''-'' \<and> c \<noteq> CHR ''+'' \<and> c \<noteq> CHR ''_'')
     (str_of_nat n) \<and> str_of_nat n \<noteq> []"
proof (induction n rule: str_of_nat.induct)
  case (1 n)
  show ?case
  proof (cases "n < 10")
    case True
    then show ?thesis by (subst (1 2) str_of_nat.simps) (simp add: digit_char_props)
  next
    case False
    with 1 show ?thesis
      by (subst (1 2) str_of_nat.simps) (simp add: digit_char_props)
  qed
qed

lemma foldl_str_of_nat: "foldl (\<lambda>a c. 10 * a + digit_val c) 0 (str_of_nat n) = n"
proof (induction n rule: str_of_nat.induct)
  case (1 n)
  show ?case
  proof (cases "n < 10")
    case True
    then show ?thesis by (subst str_of_nat.simps) (simp add: digit_char_props)
  next
    case False
    with 1 show ?thesis
      by (subst str_of_nat.simps) (simp add: digit_char_props)
  qed
qed

lemma no_double_underscore: "CHR ''_'' \<notin> set xs \<Longrightarrow> \<not> double_underscore xs"
  by (induction xs rule: double_underscore.induct) auto

lemma py_int_digits:
  assumes all: "list_all (\<lambda>c. is_digit c \<and> \<not> is_space c \<and> c \<noteq> CHR ''-'' \<and> c \<noteq> CHR ''+'' \<and> c \<noteq> CHR ''_'') xs"
    and ne: "xs \<noteq> []"
    and len: "length xs \<le> 4300"
  shows "py_int xs = Inr (int (foldl (\<lambda>a c. 10 * a + digit_val c) 0 xs))"
proof -
  from ne obtain c cs where xs: "xs = c # cs" by (cases xs) auto
  from all xs have c: "is_digit c" "\<not> is_space c" "c \<noteq> CHR ''-''" "c \<noteq> CHR ''+''" "c \<noteq> CHR ''_''"
    by simp_all
  from all have mem: "\<And>x. x \<in> set xs \<Longrightarrow> is_digit x \<and> x \<noteq> CHR ''_''"
    by (simp add: list_all_iff)
  have d1: "dropWhile is_space xs = xs" using xs c by simp
  have t: "takeWhile in_run xs = xs"
    using mem by (simp add: takeWhile_eq_all_conv in_run_def)
  have d2: "dropWhile in_run xs = []"
    using mem by (simp add: dropWhile_eq_Nil_conv in_run_def)
  have f: "filter is_digit xs = xs"
    using mem by (simp add: filter_id_conv)
  have l: "last xs \<noteq> CHR ''_''"
    using mem [of "last xs"] ne by simp
  have u: "\<not> double_underscore xs"
    using mem by (intro no_double_underscore) auto
  have h: "hd xs = c" using xs by simp
  show ?thesis
    unfolding py_int_def Let_def d1 h
    using c ne len l u by (simp add: t d2 f h)
qed

lemma str_of_nat_all_digits: "list_all is_digit (str_of_nat n)"
  using str_of_nat_digits [of n] by (simp add: list_all_iff)

lemma py_int_str_of_nat:
  "length (str_of_nat n) \<le> 4300 \<Longrightarrow> py_int (str_of_nat n) = Inr (int n)"
  using py_int_digits [of "str_of_nat n"] str_of_nat_digits [of n] foldl_str_of_nat [of n]
  by simp

lemma visit_unregistered:
  assumes "map_of nm (type_key (heap s ! (nodes s ! idx))) = None"
    and "idx < length (nodes s)"
  shows "visit nm idx s = Inr s"
  using assms by (simp add: visit_def ebind_def)

lemma updater_loop_unregistered:
  assumes "\<forall>i. idx \<le> i \<and> i < length (nodes s) \<longrightarrow> map_of nm (type_key (heap s ! (nodes s ! i))) = None"
  shows "updater_loop nm idx s visited = Some (Inr (s, visited @ [idx ..< length (nodes s)]))"
  using assms
proof (induction "length (nodes s) - idx" arbitrary: idx visited)
  case 0
  then show ?case by (subst updater_loop.simps) simp
next
  case (Suc n)
  then have lt: "idx < length (nodes s)" by simp
  with Suc.prems have v: "visit nm idx s = Inr s"
    by (simp add: visit_unregistered)
  have "updater_loop nm (Suc idx) s (visited @ [idx])
          = Some (Inr (s, (visited @ [idx]) @ [Suc idx ..< length (nodes s)]))"
    using Suc.hyps Suc.prems by (intro Suc.hyps(1)) auto
  with lt v show ?case
    by (subst updater_loop.simps) (simp add: upt_conv_Cons)
qed

text \<open>
  Claim C5. \<^verbatim>\<open>_update_from_std_str(key)\<close> on a node that has the attribute \<open>key\<close> appends
  exactly one node, the one the runtime library builds for the value, at the index that
  was the length of the table, and replaces the attribute by that index in decimal
  digits: digits only, whose value is the index, and which \<^verbatim>\<open>int\<close> reads back as that
  index (as long as they are no more than the 4300 digits that \<^verbatim>\<open>int\<close> accepts, which the
  length of a list in memory always is). With a runtime library whose node for \<^verbatim>\<open>"x"\<close>
  has a type no rule is registered for, the snapshot of version \<^verbatim>\<open>0.6.1\<close> with the single node \<^verbatim>\<open>Variable\<close> of name \<^verbatim>\<open>"x"\<close>
  is upgraded to version \<^verbatim>\<open>0.9\<close>: the node has the type \<^verbatim>\<open>tir.Var\<close> and the name \<^verbatim>\<open>"1"\<close>,
  and the node at index 1 is the one built for \<^verbatim>\<open>"x"\<close>.
\<close>

theorem attribute_promotion:
  "(item < length (heap s) \<and> attrs (heap s ! item) = Some al \<and> map_of al key = Some str_val \<longrightarrow>
      (case update_from_std_str enc key item s of
         Inl e \<Rightarrow> False
       | Inr (item', s') \<Rightarrow>
           item' = item
           \<and> nodes s' = nodes s @ [length (heap s)]
           \<and> heap s' = (heap s @ [enc str_val])
                [item := (heap s ! item)\<lparr>attrs := Some (AList.update key (str_of_nat (length (nodes s))) al)\<rparr>]
           \<and> heap s' ! (nodes s' ! length (nodes s)) = enc str_val
           \<and> get_attr item key s' = Inr (str_of_nat (length (nodes s)))
           \<and> list_all is_digit (str_of_nat (length (nodes s)))
           \<and> foldl (\<lambda>a c. 10 * a + digit_val c) 0 (str_of_nat (length (nodes s))) = length (nodes s)
           \<and> (length (str_of_nat (length (nodes s))) \<le> 4300 \<longrightarrow>
                py_int (str_of_nat (length (nodes s))) = Inr (int (length (nodes s))))))
   \<and> (map_of (node_map_06_to_07 enc) (type_key (enc ''x'')) = None
        \<and> map_of node_map_07_to_08 (type_key (enc ''x'')) = None
        \<and> map_of node_map_08_to_09 (type_key (enc ''x'')) = None \<longrightarrow>
      upgrade_json enc
        \<lparr>sattrs = [(''tvm_version'', ''0.6.1'')],
         snodes = [\<lparr>type_key = ''Variable'', attrs = Some [(''name'', ''x'')], other_keys = []\<rparr>]\<rparr>
      = Some (Inr
        \<lparr>sattrs = [(''tvm_version'', ''0.9'')],
         snodes = [\<lparr>type_key = ''tir.Var'', attrs = Some [(''name'', ''1''), (''type_annotation'', ''0'')],
                     other_keys = []\<rparr>,
                   enc ''x'']\<rparr>))"
proof (intro conjI impI)
  assume h: "item < length (heap s) \<and> attrs (heap s ! item) = Some al \<and> map_of al key = Some str_val"
  then show "case update_from_std_str enc key item s of
         Inl e \<Rightarrow> False
       | Inr (item', s') \<Rightarrow>
           item' = item
           \<and> nodes s' = nodes s @ [length (heap s)]
           \<and> heap s' = (heap s @ [enc str_val])
                [item := (heap s ! item)\<lparr>attrs := Some (AList.update key (str_of_nat (length (nodes s))) al)\<rparr>]
           \<and> heap s' ! (nodes s' ! length (nodes s)) = enc str_val
           \<and> get_attr item key s' = Inr (str_of_nat (length (nodes s)))
           \<and> list_all is_digit (str_of_nat (length (nodes s)))
           \<and> foldl (\<lambda>a c. 10 * a + digit_val c) 0 (str_of_nat (length (nodes s))) = length (nodes s)
           \<and> (length (str_of_nat (length (nodes s))) \<le> 4300 \<longrightarrow>
                py_int (str_of_nat (length (nodes s))) = Inr (int (length (nodes s))))"
    by (simp add: update_from_std_str_def access_defs Let_def nth_append update_conv' py_int_str_of_nat
          foldl_str_of_nat str_of_nat_all_digits)
next
  assume u: "map_of (node_map_06_to_07 enc) (type_key (enc ''x'')) = None
        \<and> map_of node_map_07_to_08 (type_key (enc ''x'')) = None
        \<and> map_of node_map_08_to_09 (type_key (enc ''x'')) = None"
  let ?n0 = "\<lparr>type_key = ''Variable'', attrs = Some [(''name'', ''x'')], other_keys = []\<rparr>"
  let ?n1 = "\<lparr>type_key = ''tir.Var'', attrs = Some [(''name'', ''1''), (''type_annotation'', ''0'')],
                     other_keys = []\<rparr>"
  let ?s0 = "\<lparr>heap = [?n0], nodes = [0]\<rparr>"
  let ?s1 = "\<lparr>heap = [?n1, enc ''x''], nodes = [0, Suc 0]\<rparr>"
  have v0: "visit (node_map_06_to_07 enc) 0 ?s0 = Inr ?s1"
    by (simp add: visit_def node_map_06_to_07_def update_tir_var_def update_from_std_str_def access_defs
          Let_def str_of_nat.simps digit_char_def)
  have rest67: "updater_loop (node_map_06_to_07 enc) (Suc 0) ?s1 [0] = Some (Inr (?s1, [0] @ [Suc 0 ..< length (nodes ?s1)]))"
    by (rule updater_loop_unregistered) (use u in \<open>auto simp add: less_Suc_eq\<close>)
  have l67: "updater_loop (node_map_06_to_07 enc) 0 ?s0 [] = Some (Inr (?s1, [0, 1]))"
    using rest67 by (subst updater_loop.simps) (simp add: v0)
  have l78: "updater_loop node_map_07_to_08 0 ?s1 [] = Some (Inr (?s1, [] @ [0 ..< length (nodes ?s1)]))"
    by (rule updater_loop_unregistered) (use u in \<open>auto simp add: less_Suc_eq node_map_07_to_08_def\<close>)
  have l89: "updater_loop node_map_08_to_09 0 ?s1 [] = Some (Inr (?s1, [] @ [0 ..< length (nodes ?s1)]))"
    by (rule updater_loop_unregistered) (use u in \<open>auto simp add: less_Suc_eq node_map_08_to_09_def\<close>)
  show "upgrade_json enc
        \<lparr>sattrs = [(''tvm_version'', ''0.6.1'')], snodes = [?n0]\<rparr>
      = Some (Inr \<lparr>sattrs = [(''tvm_version'', ''0.9'')], snodes = [?n1, enc ''x'']\<rparr>)"
    by (simp add: upgrade_json_def json_loads_def json_dumps_def startswith_def rbind_def
          create_updater_06_to_07_def create_updater_07_to_08_def create_updater_08_to_09_def
          create_updater_def l67 l78 l89)
qed

theorem attribute_promotion_witness:
  "(case update_from_std_str runtime_string ''name'' 0
           \<lparr>heap = [\<lparr>type_key = ''tir.Var'', attrs = Some [(''name'', ''x'')], other_keys = []\<rparr>], nodes = [0]\<rparr> of
      Inl e \<Rightarrow> False
    | Inr (item', s') \<Rightarrow>
        item' = 0 \<and> nodes s' = [0, 1]
        \<and> heap s' = [\<lparr>type_key = ''tir.Var'', attrs = Some [(''name'', ''1'')], other_keys = []\<rparr>,
                     \<lparr>type_key = ''runtime.String'', attrs = None, other_keys = [(''repr_str'', ''x'')]\<rparr>])
   \<and> upgrade_json runtime_string
        \<lparr>sattrs = [(''tvm_version'', ''0.6.1'')],
         snodes = [\<lparr>type_key = ''Variable'', attrs = Some [(''name'', ''x'')], other_keys = []\<rparr>]\<rparr>
      = Some (Inr
        \<lparr>sattrs = [(''tvm_version'', ''0.9'')],
         snodes = [\<lparr>type_key = ''tir.Var'', attrs = Some [(''name'', ''1''), (''type_annotation'', ''0'')],
                     other_keys = []\<rparr>,
                   \<lparr>type_key = ''runtime.String'', attrs = None, other_keys = [(''repr_str'', ''x'')]\<rparr>]\<rparr>)"
  using attribute_promotion [of 0
      "\<lparr>heap = [\<lparr>type_key = ''tir.Var'', attrs = Some [(''name'', ''x'')], other_keys = []\<rparr>], nodes = [0]\<rparr>"
      "[(''name'', ''x'')]" "''name''" "''x''" runtime_string]
  by (simp add: runtime_string_def node_map_06_to_07_def node_map_07_to_08_def node_map_08_to_09_def
        str_of_nat.simps digit_char_def split: sum.splits prod.splits)

subsection \<open>What a version step leaves alone\<close>

lemma py_index_less: "py_index xs k = Some j \<Longrightarrow> j < length xs"
  by (auto simp add: py_index_def split: if_splits)

lemma rule_frame_mono:
  assumes "rule_frame (=) f"
  shows "rule_frame same_or_tomb f"
  unfolding rule_frame_def
proof (intro allI impI)
  fix item s item' s'
  assume h: "f item s = Inr (item', s') \<and> identity_table s \<and> item < length (heap s)"
  note r = assms [unfolded rule_frame_def, rule_format, OF h]
  from r show "item' = item \<and> identity_table s' \<and> length (heap s) \<le> length (heap s')
        \<and> (\<forall>b < length (heap s). b \<noteq> item \<longrightarrow> same_or_tomb (heap s ! b) (heap s' ! b))"
    by (simp add: same_or_tomb_def)
qed

lemma frame_rename: "rule_frame (=) (rename t)"
  by (auto simp add: rule_frame_def rename_def access_defs identity_table_def)

lemma frame_update_tir_var: "rule_frame (=) (update_tir_var t)"
  by (auto simp add: rule_frame_def update_tir_var_def access_defs identity_table_def
      split: option.splits)

lemma frame_update_global_key: "rule_frame (=) update_global_key"
  by (auto simp add: rule_frame_def update_global_key_def access_defs identity_table_def
      split: option.splits)

lemma frame_update_from_std_str: "rule_frame (=) (update_from_std_str enc key)"
  by (auto simp add: rule_frame_def update_from_std_str_def access_defs identity_table_def Let_def nth_append
      split: option.splits)

lemma frame_initialize_virtual_device: "rule_frame (=) initialize_virtual_device"
  by (auto simp add: rule_frame_def initialize_virtual_device_def access_defs identity_table_def
      split: option.splits if_splits)

lemma frame_initialize_module_attributes: "rule_frame (=) initialize_module_attributes"
  by (auto simp add: rule_frame_def initialize_module_attributes_def access_defs identity_table_def
      split: option.splits if_splits)

lemma ftype_var_plain:
  "ftype_var item s =
     ebind (get_attr item ''var'' s) (\<lambda>v.
     ebind (py_int v) (\<lambda>vindex.
     case py_index (nodes s) vindex of
       None \<Rightarrow> Inl IndexError
     | Some j \<Rightarrow>
     ebind (get_attr (nodes s ! j) ''name'' s) (\<lambda>name.
     ebind (set_attr item ''name_hint'' name s) (\<lambda>s1.
     ebind (Inr (set_type_key (nodes s1 ! j) '''' s1)) (\<lambda>s2.
     ebind (del_attr item ''var'' s2) (\<lambda>s3.
     if \<not> startswith (type_key (heap s3 ! item)) ''relay.'' then Inl AssertionError
     else Inr (item, set_type_key item (drop (length ''relay.'') (type_key (heap s3 ! item))) s3)))))))"
  by (simp add: ftype_var_defs ebind_def split: sum.splits option.splits)

lemma ftype_var_returns:
  assumes "ftype_var item s = Inr r"
  shows "\<exists>v k. get_attr item ''var'' s = Inr v \<and> py_int v = Inr k
         \<and> (case py_index (nodes s) k of
       None \<Rightarrow> Inl IndexError
     | Some j \<Rightarrow>
     ebind (get_attr (nodes s ! j) ''name'' s) (\<lambda>name.
     ebind (set_attr item ''name_hint'' name s) (\<lambda>s1.
     ebind (Inr (set_type_key (nodes s1 ! j) '''' s1)) (\<lambda>s2.
     ebind (del_attr item ''var'' s2) (\<lambda>s3.
     if \<not> startswith (type_key (heap s3 ! item)) ''relay.'' then Inl AssertionError
     else Inr (item, set_type_key item (drop (length ''relay.'') (type_key (heap s3 ! item))) s3))))))
     = Inr r"
proof (cases "get_attr item ''var'' s")
  case (Inl e)
  with assms show ?thesis by (simp add: ftype_var_plain ebind_def)
next
  case v: (Inr v)
  show ?thesis
  proof (cases "py_int v")
    case (Inl e)
    with assms v show ?thesis by (simp add: ftype_var_plain ebind_def)
  next
    case (Inr k)
    with assms v show ?thesis by (simp add: ftype_var_plain ebind_def)
  qed
qed

lemma frame_ftype_var: "rule_frame same_or_tomb ftype_var"
  unfolding rule_frame_def
proof (intro allI impI)
  fix item s item' s'
  assume h: "ftype_var item s = Inr (item', s') \<and> identity_table s \<and> item < length (heap s)"
  then obtain v k where r: "(case py_index (nodes s) k of
       None \<Rightarrow> Inl IndexError
     | Some j \<Rightarrow>
     ebind (get_attr (nodes s ! j) ''name'' s) (\<lambda>name.
     ebind (set_attr item ''name_hint'' name s) (\<lambda>s1.
     ebind (Inr (set_type_key (nodes s1 ! j) '''' s1)) (\<lambda>s2.
     ebind (del_attr item ''var'' s2) (\<lambda>s3.
     if \<not> startswith (type_key (heap s3 ! item)) ''relay.'' then Inl AssertionError
     else Inr (item, set_type_key item (drop (length ''relay.'') (type_key (heap s3 ! item))) s3))))))
     = Inr (item', s')"
    using ftype_var_returns [of item s "(item', s')"] by blast
  from h have i: "identity_table s" and l: "item < length (heap s)" by simp_all
  from r i l show "item' = item \<and> identity_table s' \<and> length (heap s) \<le> length (heap s')
        \<and> (\<forall>b < length (heap s). b \<noteq> item \<longrightarrow> same_or_tomb (heap s ! b) (heap s' ! b))"
    by (auto simp add: access_defs identity_table_def same_or_tomb_def
          nth_list_update
        split: option.splits if_splits dest!: py_index_less)
qed

lemma frame_apply_chain:
  assumes refl: "reflp R"
    and trans: "transp R"
    and all: "list_all (rule_frame R) fs"
  shows "rule_frame R (apply_chain fs)"
  using all
proof (induction fs)
  case Nil
  show ?case by (simp add: rule_frame_def reflpD [OF refl])
next
  case (Cons f fs)
  then have ff: "rule_frame R f" and ffs: "rule_frame R (apply_chain fs)" by simp_all
  show ?case
    unfolding rule_frame_def
  proof (intro allI impI)
    fix item s item' s'
    assume h: "apply_chain (f # fs) item s = Inr (item', s') \<and> identity_table s \<and> item < length (heap s)"
    then obtain i1 s1 where f1: "f item s = Inr (i1, s1)" and r1: "apply_chain fs i1 s1 = Inr (item', s')"
      by (auto simp add: ebind_def split: sum.splits)
    from h f1 have a: "i1 = item \<and> identity_table s1 \<and> length (heap s) \<le> length (heap s1)
        \<and> (\<forall>b < length (heap s). b \<noteq> item \<longrightarrow> R (heap s ! b) (heap s1 ! b))"
      using ff [unfolded rule_frame_def, rule_format, of item s i1 s1] by simp
    with h r1 have b: "item' = item \<and> identity_table s' \<and> length (heap s1) \<le> length (heap s')
        \<and> (\<forall>b < length (heap s1). b \<noteq> item \<longrightarrow> R (heap s1 ! b) (heap s' ! b))"
      using ffs [unfolded rule_frame_def, rule_format, of item s1 item' s'] by simp
    have "\<forall>b < length (heap s). b \<noteq> item \<longrightarrow> R (heap s ! b) (heap s' ! b)"
    proof (intro allI impI)
      fix b assume "b < length (heap s)" and "b \<noteq> item"
      with a b have "R (heap s ! b) (heap s1 ! b)" and "R (heap s1 ! b) (heap s' ! b)" by simp_all
      then show "R (heap s ! b) (heap s' ! b)" by (rule transpD [OF trans])
    qed
    with a b show "item' = item \<and> identity_table s' \<and> length (heap s) \<le> length (heap s')
        \<and> (\<forall>b < length (heap s). b \<noteq> item \<longrightarrow> R (heap s ! b) (heap s' ! b))"
      by simp
  qed
qed

lemma all_rules_lookup:
  assumes "all_rules P nm" and "map_of nm k = Some e"
  shows "entry_all P e"
proof -
  from assms(2) have "(k, e) \<in> set nm" by (rule map_of_SomeD)
  with assms(1) show ?thesis by (auto simp add: all_rules_def list_all_iff)
qed

lemma visit_frame:
  assumes refl: "reflp R"
    and trans: "transp R"
    and all: "all_rules (rule_frame R) nm"
    and idt: "identity_table s"
    and lt: "idx < length (nodes s)"
    and v: "visit nm idx s = Inr s'"
  shows "identity_table s' \<and> length (heap s) \<le> length (heap s')
        \<and> (\<forall>b < length (heap s). b \<noteq> idx \<longrightarrow> R (heap s ! b) (heap s' ! b))
        \<and> (map_of nm (type_key (heap s ! idx)) = None \<longrightarrow> s' = s)"
proof -
  from idt lt have item: "nodes s ! idx = idx" and lth: "idx < length (heap s)"
    by (simp_all add: identity_table_def)
  define g where "g = (case map_of nm (type_key (heap s ! idx)) of
               None \<Rightarrow> (\<lambda>item s. Inr (item, s))
             | Some (Lst f) \<Rightarrow> apply_chain f
             | Some (Fn f) \<Rightarrow> f)"
  have fg: "rule_frame R g"
  proof (cases "map_of nm (type_key (heap s ! idx))")
    case None
    then show ?thesis by (simp add: g_def rule_frame_def reflpD [OF refl])
  next
    case (Some e)
    have ea: "entry_all (rule_frame R) e" by (rule all_rules_lookup [OF all Some])
    show ?thesis
    proof (cases e)
      case (Fn f)
      with Some ea show ?thesis by (simp add: g_def)
    next
      case (Lst fs)
      with Some ea show ?thesis by (simp add: g_def frame_apply_chain [OF refl trans])
    qed
  qed
  from v item obtain i1 s1 where g1: "g idx s = Inr (i1, s1)"
    and w: "idx < length (nodes s1)" and s': "s' = s1\<lparr>nodes := (nodes s1)[idx := i1]\<rparr>"
    by (auto simp add: visit_def g_def ebind_def Let_def split: sum.splits if_splits option.splits entry.splits)
  from fg [unfolded rule_frame_def, rule_format, of idx s i1 s1] g1 idt lth
  have a: "i1 = idx \<and> identity_table s1 \<and> length (heap s) \<le> length (heap s1)
        \<and> (\<forall>b < length (heap s). b \<noteq> idx \<longrightarrow> R (heap s ! b) (heap s1 ! b))"
    by simp
  from a w have "(nodes s1)[idx := i1] = nodes s1"
    by (simp add: identity_table_def list_update_same_conv)
  with s' have eq: "s' = s1" by simp
  have "map_of nm (type_key (heap s ! idx)) = None \<longrightarrow> s1 = s"
    using g1 by (auto simp add: g_def)
  with a eq show ?thesis by simp
qed

lemma updater_loop_frame:
  assumes refl: "reflp R"
    and trans: "transp R"
    and compat: "\<And>n n'. R n n' \<Longrightarrow> map_of nm (type_key n) = None \<Longrightarrow> map_of nm (type_key n') = None"
    and all: "all_rules (rule_frame R) nm"
    and run: "updater_loop nm idx s visited = Some r"
  shows "identity_table s \<longrightarrow>
         (\<forall>s' visited'. r = Inr (s', visited') \<longrightarrow>
            identity_table s' \<and> length (heap s) \<le> length (heap s')
            \<and> (\<forall>b < length (heap s). map_of nm (type_key (heap s ! b)) = None
                  \<longrightarrow> R (heap s ! b) (heap s' ! b)))"
proof -
  have "nm = nm \<longrightarrow> identity_table s \<longrightarrow>
         (\<forall>s' visited'. r = Inr (s', visited') \<longrightarrow>
            identity_table s' \<and> length (heap s) \<le> length (heap s')
            \<and> (\<forall>b < length (heap s). map_of nm (type_key (heap s ! b)) = None
                  \<longrightarrow> R (heap s ! b) (heap s' ! b)))"
  proof (rule updater_loop.raw_induct
      [where P = "\<lambda>nm' idx s visited r. nm' = nm \<longrightarrow> identity_table s \<longrightarrow>
         (\<forall>s' visited'. r = Inr (s', visited') \<longrightarrow>
            identity_table s' \<and> length (heap s) \<le> length (heap s')
            \<and> (\<forall>b < length (heap s). map_of nm (type_key (heap s ! b)) = None
                  \<longrightarrow> R (heap s ! b) (heap s' ! b)))",
       OF _ run])
    fix loop :: "node_map \<Rightarrow> nat \<Rightarrow> store \<Rightarrow> nat list \<Rightarrow> ((store \<times> nat list) result) option"
    fix nm' idx s visited r
    assume IH: "\<And>nm' idx s visited r. loop nm' idx s visited = Some r \<Longrightarrow>
         nm' = nm \<longrightarrow> identity_table s \<longrightarrow>
         (\<forall>s' visited'. r = Inr (s', visited') \<longrightarrow>
            identity_table s' \<and> length (heap s) \<le> length (heap s')
            \<and> (\<forall>b < length (heap s). map_of nm (type_key (heap s ! b)) = None
                  \<longrightarrow> R (heap s ! b) (heap s' ! b)))"
    assume body: "(if idx < length (nodes s)
      then (case visit nm' idx s of
              Inl e \<Rightarrow> Some (Inl e)
            | Inr s' \<Rightarrow> loop nm' (Suc idx) s' (visited @ [idx]))
      else Some (Inr (s, visited))) = Some r"
    show "nm' = nm \<longrightarrow> identity_table s \<longrightarrow>
         (\<forall>s' visited'. r = Inr (s', visited') \<longrightarrow>
            identity_table s' \<and> length (heap s) \<le> length (heap s')
            \<and> (\<forall>b < length (heap s). map_of nm (type_key (heap s ! b)) = None
                  \<longrightarrow> R (heap s ! b) (heap s' ! b)))"
    proof (intro impI allI)
      fix s' visited'
      assume nm': "nm' = nm" and idt: "identity_table s" and r: "r = Inr (s', visited')"
      show "identity_table s' \<and> length (heap s) \<le> length (heap s')
            \<and> (\<forall>b < length (heap s). map_of nm (type_key (heap s ! b)) = None
                  \<longrightarrow> R (heap s ! b) (heap s' ! b))"
      proof (cases "idx < length (nodes s)")
        case False
        with body r idt show ?thesis by (simp add: reflpD [OF refl])
      next
        case True
        with body r obtain s1 where v: "visit nm idx s = Inr s1"
          and rec: "loop nm (Suc idx) s1 (visited @ [idx]) = Some r"
          by (auto simp add: nm' split: sum.splits)
        note vf = visit_frame [OF refl trans all idt True v]
        from IH [OF rec] vf r
        have ih: "identity_table s' \<and> length (heap s1) \<le> length (heap s')
            \<and> (\<forall>b < length (heap s1). map_of nm (type_key (heap s1 ! b)) = None
                  \<longrightarrow> R (heap s1 ! b) (heap s' ! b))"
          by simp
        have "\<forall>b < length (heap s). map_of nm (type_key (heap s ! b)) = None
                  \<longrightarrow> R (heap s ! b) (heap s' ! b)"
        proof (intro allI impI)
          fix b assume b: "b < length (heap s)" and u: "map_of nm (type_key (heap s ! b)) = None"
          show "R (heap s ! b) (heap s' ! b)"
          proof (cases "b = idx")
            case True
            with u vf have "s1 = s" by simp
            with ih b u show ?thesis by simp
          next
            case False
            with vf b have r1: "R (heap s ! b) (heap s1 ! b)" by simp
            from compat [OF r1 u] have "map_of nm (type_key (heap s1 ! b)) = None" .
            with ih vf b have "R (heap s1 ! b) (heap s' ! b)" by simp
            with r1 show ?thesis by (rule transpD [OF trans])
          qed
        qed
        with ih vf show ?thesis by simp
      qed
    qed
  qed
  then show ?thesis by simp
qed

lemma all_rules_06_to_07: "all_rules (rule_frame same_or_tomb) (node_map_06_to_07 enc)"
  by (simp add: all_rules_def node_map_06_to_07_def frame_ftype_var
      rule_frame_mono [OF frame_rename] rule_frame_mono [OF frame_update_tir_var]
      rule_frame_mono [OF frame_update_global_key] rule_frame_mono [OF frame_update_from_std_str])

lemma all_rules_07_to_08: "all_rules (rule_frame (=)) node_map_07_to_08"
  by (simp add: all_rules_def node_map_07_to_08_def frame_initialize_module_attributes)

lemma all_rules_08_to_09: "all_rules (rule_frame (=)) node_map_08_to_09"
  by (simp add: all_rules_def node_map_08_to_09_def frame_initialize_virtual_device)

lemma empty_tag_unregistered_06_to_07: "map_of (node_map_06_to_07 enc) [] = None"
  by (simp add: node_map_06_to_07_def)

lemma create_updater_Inr:
  assumes "create_updater nm from_ver to_ver d = Some (Inr d')"
  shows "\<exists>s' visited. updater_loop nm 0 (st d) [] = Some (Inr (s', visited))
           \<and> d' = d\<lparr>st := s', dattrs := AList.update ''tvm_version'' to_ver (dattrs d)\<rparr>"
  using assms
  by (auto simp add: create_updater_def split: option.splits if_splits sum.splits)

lemma reflp_eq_node: "reflp ((=) :: node \<Rightarrow> node \<Rightarrow> bool)"
  by (simp add: reflp_def)

lemma transp_eq_node: "transp ((=) :: node \<Rightarrow> node \<Rightarrow> bool)"
  by (simp add: transp_def)

lemma reflp_same_or_tomb: "reflp same_or_tomb"
  by (simp add: reflp_def same_or_tomb_def)

lemma transp_same_or_tomb: "transp same_or_tomb"
  by (auto simp add: transp_def same_or_tomb_def)

lemma pass_06_to_07:
  assumes "updater_loop (node_map_06_to_07 enc) 0 s [] = Some (Inr (s', visited))"
    and "identity_table s"
  shows "identity_table s' \<and> length (heap s) \<le> length (heap s')
         \<and> (\<forall>b < length (heap s). map_of (node_map_06_to_07 enc) (type_key (heap s ! b)) = None
               \<longrightarrow> same_or_tomb (heap s ! b) (heap s' ! b))"
proof -
  have compat: "\<And>n n'. same_or_tomb n n' \<Longrightarrow> map_of (node_map_06_to_07 enc) (type_key n) = None
      \<Longrightarrow> map_of (node_map_06_to_07 enc) (type_key n') = None"
    by (auto simp add: same_or_tomb_def empty_tag_unregistered_06_to_07)
  from updater_loop_frame [OF reflp_same_or_tomb transp_same_or_tomb compat all_rules_06_to_07 assms(1)]
    assms(2)
  show ?thesis by simp
qed

lemma pass_exact:
  assumes "all_rules (rule_frame (=)) nm"
    and "updater_loop nm 0 s [] = Some (Inr (s', visited))"
    and "identity_table s"
  shows "identity_table s' \<and> length (heap s) \<le> length (heap s')
         \<and> (\<forall>b < length (heap s). map_of nm (type_key (heap s ! b)) = None
               \<longrightarrow> heap s ! b = heap s' ! b)"
proof -
  have compat: "\<And>n n'. n = n' \<Longrightarrow> map_of nm (type_key n) = None
      \<Longrightarrow> map_of nm (type_key n') = None"
    by simp
  from updater_loop_frame [OF reflp_eq_node transp_eq_node compat assms(1) assms(2)] assms(3)
  show ?thesis by simp
qed

lemma identity_table_facts:
  assumes "identity_table s" and "identity_table s'" and "length (heap s) \<le> length (heap s')"
  shows "length (nodes s) \<le> length (nodes s')"
    and "take (length (nodes s)) (nodes s') = nodes s"
    and "\<And>i. i < length (nodes s) \<Longrightarrow> nodes s ! i = i \<and> nodes s' ! i = i \<and> i < length (heap s)"
  using assms by (simp_all add: identity_table_def)


text \<open>
  Claim C6, as the code has it. For each of the three rule sets of the module, on a table
  as \<^verbatim>\<open>json.loads\<close> or an earlier step leaves it, a pass that completes does not shorten
  the table, leaves every entry at its index (so each rewritten node is stored where it
  was visited, and nothing is removed or reordered), and leaves every node whose type has
  no registered rule as it was, except that the cross-reference rule of 0.6 to 0.7, run
  on another node, may have set its \<^verbatim>\<open>type_key\<close> to the empty string; in the steps 0.7 to
  0.8 and 0.8 to 0.9 such a node is exactly as it was.
\<close>

theorem version_step_table:
  assumes nm: "nm = node_map_06_to_07 enc \<or> nm = node_map_07_to_08 \<or> nm = node_map_08_to_09"
    and idt: "nodes (st d) = [0 ..< length (heap (st d))]"
    and run: "create_updater nm from_ver to_ver d = Some (Inr d')"
  shows "length (nodes (st d)) \<le> length (nodes (st d'))
     \<and> take (length (nodes (st d))) (nodes (st d')) = nodes (st d)
     \<and> nodes (st d') = [0 ..< length (heap (st d'))]
     \<and> (\<forall>i < length (nodes (st d)).
           map_of nm (type_key (heap (st d) ! (nodes (st d) ! i))) = None \<longrightarrow>
             heap (st d') ! (nodes (st d') ! i) = heap (st d) ! (nodes (st d) ! i)
             \<or> heap (st d') ! (nodes (st d') ! i) = (heap (st d) ! (nodes (st d) ! i))\<lparr>type_key := ''''\<rparr>)
     \<and> (nm = node_map_07_to_08 \<or> nm = node_map_08_to_09 \<longrightarrow>
          (\<forall>i < length (nodes (st d)).
             map_of nm (type_key (heap (st d) ! (nodes (st d) ! i))) = None \<longrightarrow>
               heap (st d') ! (nodes (st d') ! i) = heap (st d) ! (nodes (st d) ! i)))"
proof -
  from create_updater_Inr [OF run] obtain s' visited
    where loop: "updater_loop nm 0 (st d) [] = Some (Inr (s', visited))"
      and d': "st d' = s'"
    by auto
  from idt have i0: "identity_table (st d)" by (simp add: identity_table_def)
  have weak: "identity_table s' \<and> length (heap (st d)) \<le> length (heap s')
         \<and> (\<forall>b < length (heap (st d)). map_of nm (type_key (heap (st d) ! b)) = None
               \<longrightarrow> same_or_tomb (heap (st d) ! b) (heap s' ! b))"
  proof -
    consider (a) "nm = node_map_06_to_07 enc" | (b) "nm = node_map_07_to_08" | (c) "nm = node_map_08_to_09"
      using nm by blast
    then show ?thesis
    proof cases
      case a
      with loop i0 show ?thesis using pass_06_to_07 [of enc "st d" s' visited] by simp
    next
      case b
      with loop i0 show ?thesis
        using pass_exact [OF all_rules_07_to_08, of "st d" s' visited] by (simp add: same_or_tomb_def)
    next
      case c
      with loop i0 show ?thesis
        using pass_exact [OF all_rules_08_to_09, of "st d" s' visited] by (simp add: same_or_tomb_def)
    qed
  qed
  have strong: "nm = node_map_07_to_08 \<or> nm = node_map_08_to_09 \<longrightarrow>
      (\<forall>b < length (heap (st d)). map_of nm (type_key (heap (st d) ! b)) = None
               \<longrightarrow> heap (st d) ! b = heap s' ! b)"
  proof
    assume "nm = node_map_07_to_08 \<or> nm = node_map_08_to_09"
    then have "all_rules (rule_frame (=)) nm"
      using all_rules_07_to_08 all_rules_08_to_09 by blast
    from pass_exact [OF this loop i0]
    show "\<forall>b < length (heap (st d)). map_of nm (type_key (heap (st d) ! b)) = None
               \<longrightarrow> heap (st d) ! b = heap s' ! b"
      by simp
  qed
  from weak have i1: "identity_table s'" and le: "length (heap (st d)) \<le> length (heap s')" by simp_all
  note f = identity_table_facts [OF i0 i1 le]
  have c1: "length (nodes (st d)) \<le> length (nodes (st d'))" using f(1) d' by simp
  have c2: "take (length (nodes (st d))) (nodes (st d')) = nodes (st d)" using f(2) d' by simp
  have c3: "nodes (st d') = [0 ..< length (heap (st d'))]" using i1 d' by (simp add: identity_table_def)
  have c4: "\<forall>i < length (nodes (st d)).
           map_of nm (type_key (heap (st d) ! (nodes (st d) ! i))) = None \<longrightarrow>
             heap (st d') ! (nodes (st d') ! i) = heap (st d) ! (nodes (st d) ! i)
             \<or> heap (st d') ! (nodes (st d') ! i) = (heap (st d) ! (nodes (st d) ! i))\<lparr>type_key := ''''\<rparr>"
  proof (intro allI impI)
    fix i assume i: "i < length (nodes (st d))"
      and u: "map_of nm (type_key (heap (st d) ! (nodes (st d) ! i))) = None"
    from f(3) [OF i] u weak have "same_or_tomb (heap (st d) ! i) (heap s' ! i)" by simp
    with f(3) [OF i] d' show "heap (st d') ! (nodes (st d') ! i) = heap (st d) ! (nodes (st d) ! i)
             \<or> heap (st d') ! (nodes (st d') ! i) = (heap (st d) ! (nodes (st d) ! i))\<lparr>type_key := ''''\<rparr>"
      by (simp add: same_or_tomb_def)
  qed
  have c5: "nm = node_map_07_to_08 \<or> nm = node_map_08_to_09 \<longrightarrow>
          (\<forall>i < length (nodes (st d)).
             map_of nm (type_key (heap (st d) ! (nodes (st d) ! i))) = None \<longrightarrow>
               heap (st d') ! (nodes (st d') ! i) = heap (st d) ! (nodes (st d) ! i))"
  proof (intro allI impI)
    fix i assume n: "nm = node_map_07_to_08 \<or> nm = node_map_08_to_09"
      and i: "i < length (nodes (st d))"
      and u: "map_of nm (type_key (heap (st d) ! (nodes (st d) ! i))) = None"
    from f(3) [OF i] u strong n have "heap (st d) ! i = heap s' ! i" by simp
    with f(3) [OF i] d' show "heap (st d') ! (nodes (st d') ! i) = heap (st d) ! (nodes (st d) ! i)"
      by simp
  qed
  from c1 c2 c3 c4 c5 show ?thesis by blast
qed

theorem version_step_table_witness:
  "create_updater (node_map_06_to_07 runtime_string) ''0.6'' ''0.7''
     \<lparr>dattrs = [(''tvm_version'', ''0.6'')],
      st = \<lparr>heap = [\<lparr>type_key = ''IntImm'', attrs = Some [(''name'', ''x'')], other_keys = []\<rparr>,
                    \<lparr>type_key = ''relay.TypeVar'', attrs = Some [(''var'', ''0'')], other_keys = []\<rparr>],
            nodes = [0, 1]\<rparr>\<rparr>
   = Some (Inr
     \<lparr>dattrs = [(''tvm_version'', ''0.7'')],
      st = \<lparr>heap = [\<lparr>type_key = [], attrs = Some [(''name'', ''x'')], other_keys = []\<rparr>,
                    \<lparr>type_key = ''TypeVar'', attrs = Some [(''name_hint'', ''2'')], other_keys = []\<rparr>,
                    \<lparr>type_key = ''runtime.String'', attrs = None, other_keys = [(''repr_str'', ''x'')]\<rparr>],
            nodes = [0, 1, 2]\<rparr>\<rparr>)
   \<and> (2::nat) \<le> 3
   \<and> take 2 [0, 1, 2 :: nat] = [0, 1]
   \<and> map_of (node_map_06_to_07 runtime_string) ''IntImm'' = None
   \<and> \<lparr>type_key = [], attrs = Some [(''name'', ''x'')], other_keys = []\<rparr>
       = \<lparr>type_key = ''IntImm'', attrs = Some [(''name'', ''x'')], other_keys = []\<rparr>\<lparr>type_key := ''''\<rparr>"
proof -
  let ?d = "\<lparr>dattrs = [(''tvm_version'', ''0.6'')],
      st = \<lparr>heap = [\<lparr>type_key = ''IntImm'', attrs = Some [(''name'', ''x'')], other_keys = []\<rparr>,
                    \<lparr>type_key = ''relay.TypeVar'', attrs = Some [(''var'', ''0'')], other_keys = []\<rparr>],
            nodes = [0, 1]\<rparr>\<rparr>"
  let ?d' = "\<lparr>dattrs = [(''tvm_version'', ''0.7'')],
      st = \<lparr>heap = [\<lparr>type_key = [], attrs = Some [(''name'', ''x'')], other_keys = []\<rparr>,
                    \<lparr>type_key = ''TypeVar'', attrs = Some [(''name_hint'', ''2'')], other_keys = []\<rparr>,
                    \<lparr>type_key = ''runtime.String'', attrs = None, other_keys = [(''repr_str'', ''x'')]\<rparr>],
            nodes = [0, 1, 2]\<rparr>\<rparr>"
  have run: "create_updater (node_map_06_to_07 runtime_string) ''0.6'' ''0.7'' ?d = Some (Inr ?d')"
    by (simp add: create_updater_def startswith_def updater_loop.simps visit_def node_map_06_to_07_def
        ftype_var_defs update_from_std_str_def runtime_string_def access_defs py_int_defs py_index_def
        Let_def str_of_nat.simps digit_char_def)
  have idt: "nodes (st ?d) = [0 ..< length (heap (st ?d))]"
    by (simp add: upt_conv_Cons)
  have nm: "node_map_06_to_07 runtime_string = node_map_06_to_07 runtime_string
      \<or> node_map_06_to_07 runtime_string = node_map_07_to_08
      \<or> node_map_06_to_07 runtime_string = node_map_08_to_09"
    by simp
  have u: "map_of (node_map_06_to_07 runtime_string) ''IntImm'' = None"
    by (simp add: node_map_06_to_07_def)
  from version_step_table [OF nm idt run] run u show ?thesis
    by simp
qed


text \<open>
  The claim as written (a node whose type has no registered rule is unchanged) fails in
  the step 0.6 to 0.7 on a node of the unregistered type \<^verbatim>\<open>IntImm\<close> that a
  \<^verbatim>\<open>relay.TypeVar\<close> node refers to: the pass empties its \<^verbatim>\<open>type_key\<close>.
\<close>

theorem version_step_tombstones_unregistered_node_counterexample:
  "create_updater (node_map_06_to_07 runtime_string) ''0.6'' ''0.7''
     \<lparr>dattrs = [(''tvm_version'', ''0.6'')],
      st = \<lparr>heap = [\<lparr>type_key = ''IntImm'', attrs = Some [(''name'', ''x'')], other_keys = []\<rparr>,
                    \<lparr>type_key = ''relay.TypeVar'', attrs = Some [(''var'', ''0'')], other_keys = []\<rparr>],
            nodes = [0, 1]\<rparr>\<rparr>
   = Some (Inr
     \<lparr>dattrs = [(''tvm_version'', ''0.7'')],
      st = \<lparr>heap = [\<lparr>type_key = [], attrs = Some [(''name'', ''x'')], other_keys = []\<rparr>,
                    \<lparr>type_key = ''TypeVar'', attrs = Some [(''name_hint'', ''2'')], other_keys = []\<rparr>,
                    \<lparr>type_key = ''runtime.String'', attrs = None, other_keys = [(''repr_str'', ''x'')]\<rparr>],
            nodes = [0, 1, 2]\<rparr>\<rparr>)"
  by (simp add: create_updater_def startswith_def updater_loop.simps visit_def node_map_06_to_07_def
        ftype_var_defs update_from_std_str_def runtime_string_def access_defs py_int_defs py_index_def
        Let_def str_of_nat.simps digit_char_def)


subsection \<open>Splitting the chain\<close>

lemma json_loads_dumps:
  assumes "identity_table (st d)"
  shows "json_loads (json_dumps d) = d"
  using assms by (simp add: json_loads_def json_dumps_def identity_table_def map_nth)

lemma identity_table_json_loads: "identity_table (st (json_loads snap))"
  by (simp add: json_loads_def identity_table_def)


text \<open>
  Claim C4. For a snapshot whose version starts with \<^verbatim>\<open>0.6\<close>, \<^verbatim>\<open>upgrade_json\<close> gives the
  same result (the same snapshot, the same exception, or no result at all) as running the
  updater of 0.6 to 0.7 alone, writing its result out, and calling \<^verbatim>\<open>upgrade_json\<close> on what
  was written.
\<close>

theorem upgrade_json_chain_split:
  assumes v: "map_of (sattrs snap) ''tvm_version'' = Some v"
    and p: "startswith v ''0.6''"
  shows "upgrade_json enc snap =
           rbind (create_updater_06_to_07 enc (json_loads snap)) (\<lambda>d1. upgrade_json enc (json_dumps d1))"
proof (cases "create_updater_06_to_07 enc (json_loads snap)")
  case None
  with v p show ?thesis by (simp add: upgrade_json_def rbind_def json_loads_def)
next
  case (Some r)
  show ?thesis
  proof (cases r)
    case (Inl e)
    with Some v p show ?thesis by (simp add: upgrade_json_def rbind_def json_loads_def)
  next
    case (Inr d1)
    with Some have run: "create_updater (node_map_06_to_07 enc) ''0.6'' ''0.7'' (json_loads snap) = Some (Inr d1)"
      by (simp add: create_updater_06_to_07_def)
    from create_updater_Inr [OF run] obtain s' visited
      where loop: "updater_loop (node_map_06_to_07 enc) 0 (st (json_loads snap)) [] = Some (Inr (s', visited))"
        and d1: "d1 = (json_loads snap)\<lparr>st := s', dattrs := AList.update ''tvm_version'' ''0.7'' (dattrs (json_loads snap))\<rparr>"
      by auto
    from pass_06_to_07 [OF loop identity_table_json_loads] d1
    have "identity_table (st d1)" by simp
    then have rt: "json_loads (json_dumps d1) = d1" by (rule json_loads_dumps)
    have ver: "map_of (dattrs d1) ''tvm_version'' = Some ''0.7''"
      using d1 by (simp add: update_conv')
    have rhs: "upgrade_json enc (json_dumps d1)
        = rbind (rbind (create_updater_07_to_08 d1) create_updater_08_to_09) (\<lambda>d'. Some (Inr (json_dumps d')))"
      using ver unfolding upgrade_json_def rt Let_def by (simp add: startswith_def)
    have lhs: "upgrade_json enc snap
        = rbind (rbind (rbind (create_updater_06_to_07 enc (json_loads snap)) create_updater_07_to_08)
              create_updater_08_to_09) (\<lambda>d'. Some (Inr (json_dumps d')))"
      using v p by (simp add: upgrade_json_def json_loads_def)
    show ?thesis
      unfolding lhs Some Inr using rhs by (simp add: rbind_def)
  qed
qed

theorem upgrade_json_chain_split_witness:
  "map_of (sattrs \<lparr>sattrs = [(''tvm_version'', ''0.6.1'')],
                   snodes = [\<lparr>type_key = ''Variable'', attrs = Some [(''name'', ''x'')], other_keys = []\<rparr>]\<rparr>)
      ''tvm_version'' = Some ''0.6.1''
   \<and> startswith ''0.6.1'' ''0.6''
   \<and> upgrade_json runtime_string
        \<lparr>sattrs = [(''tvm_version'', ''0.6.1'')],
         snodes = [\<lparr>type_key = ''Variable'', attrs = Some [(''name'', ''x'')], other_keys = []\<rparr>]\<rparr>
     = rbind (create_updater_06_to_07 runtime_string (json_loads
          \<lparr>sattrs = [(''tvm_version'', ''0.6.1'')],
           snodes = [\<lparr>type_key = ''Variable'', attrs = Some [(''name'', ''x'')], other_keys = []\<rparr>]\<rparr>))
        (\<lambda>d1. upgrade_json runtime_string (json_dumps d1))"
  using upgrade_json_chain_split
    [of "\<lparr>sattrs = [(''tvm_version'', ''0.6.1'')],
          snodes = [\<lparr>type_key = ''Variable'', attrs = Some [(''name'', ''x'')], other_keys = []\<rparr>]\<rparr>"
        "''0.6.1''" runtime_string]
  by (simp add: startswith_def)

subsection \<open>The choice of the chain\<close>

lemma errors_rename: "rule_errors (rename t)"
  by (simp add: rule_errors_def rename_def)

lemma errors_update_tir_var: "rule_errors (update_tir_var t)"
  by (auto simp add: rule_errors_def update_tir_var_def access_defs step_error_def split: option.splits)

lemma errors_update_global_key: "rule_errors update_global_key"
  by (auto simp add: rule_errors_def update_global_key_def split: option.splits)

lemma errors_update_from_std_str: "rule_errors (update_from_std_str enc key)"
  by (auto simp add: rule_errors_def update_from_std_str_def access_defs step_error_def Let_def
      split: option.splits)

lemma errors_initialize_virtual_device: "rule_errors initialize_virtual_device"
  by (auto simp add: rule_errors_def initialize_virtual_device_def access_defs step_error_def
      split: option.splits if_splits)

lemma errors_initialize_module_attributes: "rule_errors initialize_module_attributes"
  by (auto simp add: rule_errors_def initialize_module_attributes_def access_defs step_error_def
      split: option.splits if_splits)

lemma raise_cases:
  "(if a then Inl x else if b then Inl y else if c then Inl x else Inr z) = Inl e
   \<Longrightarrow> e = x \<or> e = y"
  by (simp split: if_splits)

lemma step_error_invalid_literal: "step_error (invalid_literal v)"
  by (simp add: invalid_literal_def step_error_def)

lemma step_error_exceeds_limit: "step_error (exceeds_limit n)"
  by (simp add: exceeds_limit_def step_error_def)

lemma py_int_errors:
  assumes "py_int v = Inl e"
  shows "step_error e"
proof -
  from assms [unfolded py_int_def Let_def]
  have "e = invalid_literal v
      \<or> e = exceeds_limit (length (filter is_digit (takeWhile in_run
            (if dropWhile is_space v \<noteq> [] \<and> (hd (dropWhile is_space v) = CHR ''-''
                \<or> hd (dropWhile is_space v) = CHR ''+'')
             then tl (dropWhile is_space v) else dropWhile is_space v))))"
    by (rule raise_cases)
  then show ?thesis
    using step_error_invalid_literal step_error_exceeds_limit by blast
qed

lemma errors_ftype_var: "rule_errors ftype_var"
  unfolding rule_errors_def
proof (intro allI impI)
  fix item s e
  assume h: "ftype_var item s = Inl e"
  show "step_error e"
  proof (cases "get_attr item ''var'' s")
    case (Inl e1)
    with h have "e = e1" by (simp add: ftype_var_plain ebind_def)
    with Inl show ?thesis
      by (auto simp add: access_defs step_error_def split: option.splits)
  next
    case v: (Inr v)
    show ?thesis
    proof (cases "py_int v")
      case (Inl e1)
      with h v have "e = e1" by (simp add: ftype_var_plain ebind_def)
      with Inl show ?thesis by (simp add: py_int_errors)
    next
      case (Inr k)
      with h v have "(case py_index (nodes s) k of
       None \<Rightarrow> Inl IndexError
     | Some j \<Rightarrow>
     ebind (get_attr (nodes s ! j) ''name'' s) (\<lambda>name.
     ebind (set_attr item ''name_hint'' name s) (\<lambda>s1.
     ebind (Inr (set_type_key (nodes s1 ! j) '''' s1)) (\<lambda>s2.
     ebind (del_attr item ''var'' s2) (\<lambda>s3.
     if \<not> startswith (type_key (heap s3 ! item)) ''relay.'' then Inl AssertionError
     else Inr (item, set_type_key item (drop (length ''relay.'') (type_key (heap s3 ! item))) s3))))))
     = Inl e"
        by (simp add: ftype_var_plain ebind_def)
      then show ?thesis
        by (auto simp add: access_defs step_error_def split: option.splits if_splits)
    qed
  qed
qed

lemma errors_apply_chain:
  assumes "list_all rule_errors fs"
  shows "rule_errors (apply_chain fs)"
  using assms
proof (induction fs)
  case Nil
  show ?case by (simp add: rule_errors_def)
next
  case (Cons f fs)
  then have ff: "rule_errors f" and ffs: "rule_errors (apply_chain fs)" by simp_all
  show ?case
    unfolding rule_errors_def
  proof (intro allI impI)
    fix item s e
    assume h: "apply_chain (f # fs) item s = Inl e"
    show "step_error e"
    proof (cases "f item s")
      case (Inl e')
      with h have "e' = e" by (simp add: ebind_def)
      with Inl ff show ?thesis by (auto simp add: rule_errors_def)
    next
      case (Inr p)
      with h have "apply_chain fs (fst p) (snd p) = Inl e"
        by (simp add: ebind_def split: prod.splits)
      with ffs show ?thesis by (auto simp add: rule_errors_def)
    qed
  qed
qed

lemma visit_errors:
  assumes all: "all_rules rule_errors nm"
    and v: "visit nm idx s = Inl e"
  shows "step_error e"
proof -
  define g where "g = (case map_of nm (type_key (heap s ! (nodes s ! idx))) of
               None \<Rightarrow> (\<lambda>item s. Inr (item, s))
             | Some (Lst f) \<Rightarrow> apply_chain f
             | Some (Fn f) \<Rightarrow> f)"
  have fg: "rule_errors g"
  proof (cases "map_of nm (type_key (heap s ! (nodes s ! idx)))")
    case None
    then show ?thesis by (simp add: g_def rule_errors_def)
  next
    case (Some en)
    have ea: "entry_all rule_errors en" by (rule all_rules_lookup [OF all Some])
    show ?thesis
    proof (cases en)
      case (Fn f)
      with Some ea show ?thesis by (simp add: g_def)
    next
      case (Lst fs)
      with Some ea show ?thesis by (simp add: g_def errors_apply_chain)
    qed
  qed
  from v have "g (nodes s ! idx) s = Inl e \<or> e = IndexError"
    by (auto simp add: visit_def g_def ebind_def Let_def
        split: sum.splits if_splits option.splits entry.splits)
  with fg show ?thesis by (auto simp add: rule_errors_def step_error_def)
qed

lemma updater_loop_errors:
  assumes all: "all_rules rule_errors nm"
    and run: "updater_loop nm idx s visited = Some r"
  shows "\<forall>e. r = Inl e \<longrightarrow> step_error e"
proof -
  have "nm = nm \<longrightarrow> (\<forall>e. r = Inl e \<longrightarrow> step_error e)"
  proof (rule updater_loop.raw_induct
      [where P = "\<lambda>nm' idx s visited r. nm' = nm \<longrightarrow> (\<forall>e. r = Inl e \<longrightarrow> step_error e)", OF _ run])
    fix loop :: "node_map \<Rightarrow> nat \<Rightarrow> store \<Rightarrow> nat list \<Rightarrow> ((store \<times> nat list) result) option"
    fix nm' idx s visited r
    assume IH: "\<And>nm' idx s visited r. loop nm' idx s visited = Some r \<Longrightarrow>
         nm' = nm \<longrightarrow> (\<forall>e. r = Inl e \<longrightarrow> step_error e)"
    assume body: "(if idx < length (nodes s)
      then (case visit nm' idx s of
              Inl e \<Rightarrow> Some (Inl e)
            | Inr s' \<Rightarrow> loop nm' (Suc idx) s' (visited @ [idx]))
      else Some (Inr (s, visited))) = Some r"
    show "nm' = nm \<longrightarrow> (\<forall>e. r = Inl e \<longrightarrow> step_error e)"
    proof (intro impI allI)
      fix e assume nm': "nm' = nm" and r: "r = Inl e"
      show "step_error e"
      proof (cases "idx < length (nodes s)")
        case False
        with body r show ?thesis by simp
      next
        case True
        show ?thesis
        proof (cases "visit nm idx s")
          case (Inl e')
          with True body r nm' have "e' = e" by simp
          with Inl show ?thesis using visit_errors [OF all] by simp
        next
          case (Inr s1)
          with True body nm' have "loop nm (Suc idx) s1 (visited @ [idx]) = Some r" by simp
          from IH [OF this] r show ?thesis by simp
        qed
      qed
    qed
  qed
  then show ?thesis by simp
qed

lemma create_updater_errors:
  assumes all: "all_rules rule_errors nm"
    and run: "create_updater nm from_ver to_ver d = Some (Inl e)"
  shows "step_error e"
proof (cases "map_of (dattrs d) ''tvm_version''")
  case None
  with run show ?thesis by (auto simp add: create_updater_def step_error_def)
next
  case (Some v)
  show ?thesis
  proof (cases "startswith v from_ver")
    case False
    with Some run show ?thesis by (auto simp add: create_updater_def step_error_def)
  next
    case True
    with Some run have "updater_loop nm 0 (st d) [] = Some (Inl e)"
      by (auto simp add: create_updater_def split: option.splits sum.splits)
    from updater_loop_errors [OF all this] show ?thesis by simp
  qed
qed

lemma errors_06_to_07: "all_rules rule_errors (node_map_06_to_07 enc)"
  by (simp add: all_rules_def node_map_06_to_07_def errors_ftype_var errors_rename
      errors_update_tir_var errors_update_global_key errors_update_from_std_str)

lemma errors_07_to_08: "all_rules rule_errors node_map_07_to_08"
  by (simp add: all_rules_def node_map_07_to_08_def errors_initialize_module_attributes)

lemma errors_08_to_09: "all_rules rule_errors node_map_08_to_09"
  by (simp add: all_rules_def node_map_08_to_09_def errors_initialize_virtual_device)

lemma rbind_errors:
  assumes "rbind m f = Some (Inl e)"
    and "\<And>e. m = Some (Inl e) \<Longrightarrow> step_error e"
    and "\<And>x e. f x = Some (Inl e) \<Longrightarrow> step_error e"
  shows "step_error e"
  using assms by (auto simp add: rbind_def split: option.splits sum.splits)

lemma chain_errors:
  "create_updater_06_to_07 enc d = Some (Inl e) \<Longrightarrow> step_error e"
  "create_updater_07_to_08 d = Some (Inl e) \<Longrightarrow> step_error e"
  "create_updater_08_to_09 d = Some (Inl e) \<Longrightarrow> step_error e"
  using create_updater_errors [OF errors_06_to_07] create_updater_errors [OF errors_07_to_08]
    create_updater_errors [OF errors_08_to_09]
  by (simp_all add: create_updater_06_to_07_def create_updater_07_to_08_def create_updater_08_to_09_def)


text \<open>
  Claim C3. \<^verbatim>\<open>upgrade_json\<close> runs the three steps when the declared version starts with
  \<^verbatim>\<open>0.6\<close>, the last two when it starts with \<^verbatim>\<open>0.7\<close>, the last one when it starts with
  \<^verbatim>\<open>0.8\<close> (whatever follows the prefix), and it raises \<^verbatim>\<open>ValueError\<close> with the message
  \<^verbatim>\<open>Cannot update from version\<close> followed by the declared version exactly when the
  version starts with none of the three; no step raises that exception.
\<close>

theorem upgrade_json_version_dispatch:
  assumes v: "map_of (sattrs snap) ''tvm_version'' = Some v"
  shows "(startswith v ''0.6'' \<longrightarrow>
            upgrade_json enc snap =
              rbind (rbind (rbind (create_updater_06_to_07 enc (json_loads snap)) create_updater_07_to_08)
                 create_updater_08_to_09) (\<lambda>d. Some (Inr (json_dumps d))))
       \<and> (startswith v ''0.7'' \<longrightarrow>
            upgrade_json enc snap =
              rbind (rbind (create_updater_07_to_08 (json_loads snap)) create_updater_08_to_09)
                 (\<lambda>d. Some (Inr (json_dumps d))))
       \<and> (startswith v ''0.8'' \<longrightarrow>
            upgrade_json enc snap =
              rbind (create_updater_08_to_09 (json_loads snap)) (\<lambda>d. Some (Inr (json_dumps d))))
       \<and> (upgrade_json enc snap = Some (Inl (ValueError (''Cannot update from version '' @ v)))
            \<longleftrightarrow> \<not> (startswith v ''0.6'' \<or> startswith v ''0.7'' \<or> startswith v ''0.8''))"
proof (intro conjI impI)
  assume "startswith v ''0.6''"
  with v show "upgrade_json enc snap =
              rbind (rbind (rbind (create_updater_06_to_07 enc (json_loads snap)) create_updater_07_to_08)
                 create_updater_08_to_09) (\<lambda>d. Some (Inr (json_dumps d)))"
    by (simp add: upgrade_json_def json_loads_def)
next
  assume "startswith v ''0.7''"
  with v show "upgrade_json enc snap =
              rbind (rbind (create_updater_07_to_08 (json_loads snap)) create_updater_08_to_09)
                 (\<lambda>d. Some (Inr (json_dumps d)))"
    by (auto simp add: upgrade_json_def json_loads_def startswith_def)
next
  assume "startswith v ''0.8''"
  with v show "upgrade_json enc snap =
              rbind (create_updater_08_to_09 (json_loads snap)) (\<lambda>d. Some (Inr (json_dumps d)))"
    by (auto simp add: upgrade_json_def json_loads_def startswith_def)
next
  show "upgrade_json enc snap = Some (Inl (ValueError (''Cannot update from version '' @ v)))
            \<longleftrightarrow> \<not> (startswith v ''0.6'' \<or> startswith v ''0.7'' \<or> startswith v ''0.8'')"
  proof
    assume "\<not> (startswith v ''0.6'' \<or> startswith v ''0.7'' \<or> startswith v ''0.8'')"
    with v show "upgrade_json enc snap = Some (Inl (ValueError (''Cannot update from version '' @ v)))"
      by (simp add: upgrade_json_def json_loads_def rbind_def)
  next
    assume err: "upgrade_json enc snap = Some (Inl (ValueError (''Cannot update from version '' @ v)))"
    show "\<not> (startswith v ''0.6'' \<or> startswith v ''0.7'' \<or> startswith v ''0.8'')"
    proof
      assume known: "startswith v ''0.6'' \<or> startswith v ''0.7'' \<or> startswith v ''0.8''"
      let ?chain = "if startswith v ''0.6'' then
               rbind (rbind (create_updater_06_to_07 enc (json_loads snap)) create_updater_07_to_08) create_updater_08_to_09
             else if startswith v ''0.7'' then
               rbind (create_updater_07_to_08 (json_loads snap)) create_updater_08_to_09
             else create_updater_08_to_09 (json_loads snap)"
      from v known have u: "upgrade_json enc snap = rbind ?chain (\<lambda>d'. Some (Inr (json_dumps d')))"
        by (auto simp add: upgrade_json_def json_loads_def)
      have ce: "\<And>e. ?chain = Some (Inl e) \<Longrightarrow> step_error e"
        by (auto split: if_splits elim!: rbind_errors simp add: chain_errors)
      have "step_error (ValueError (''Cannot update from version '' @ v))"
        by (rule rbind_errors [OF err [unfolded u] ce]) simp_all
      then show False by (simp add: step_error_def)
    qed
  qed
qed

theorem upgrade_json_version_dispatch_witness:
  "upgrade_json runtime_string \<lparr>sattrs = [(''tvm_version'', ''0.6.1'')], snodes = []\<rparr>
     = Some (Inr \<lparr>sattrs = [(''tvm_version'', ''0.9'')], snodes = []\<rparr>)
   \<and> upgrade_json runtime_string \<lparr>sattrs = [(''tvm_version'', ''0.7'')], snodes = []\<rparr>
     = Some (Inr \<lparr>sattrs = [(''tvm_version'', ''0.9'')], snodes = []\<rparr>)
   \<and> upgrade_json runtime_string \<lparr>sattrs = [(''tvm_version'', ''0.8.dev0'')], snodes = []\<rparr>
     = Some (Inr \<lparr>sattrs = [(''tvm_version'', ''0.9'')], snodes = []\<rparr>)
   \<and> upgrade_json runtime_string \<lparr>sattrs = [(''tvm_version'', ''0.3'')], snodes = []\<rparr>
     = Some (Inl (ValueError ''Cannot update from version 0.3''))"
  using upgrade_json_version_dispatch
      [of "\<lparr>sattrs = [(''tvm_version'', ''0.6.1'')], snodes = []\<rparr>" "''0.6.1''" runtime_string]
    upgrade_json_version_dispatch
      [of "\<lparr>sattrs = [(''tvm_version'', ''0.7'')], snodes = []\<rparr>" "''0.7''" runtime_string]
    upgrade_json_version_dispatch
      [of "\<lparr>sattrs = [(''tvm_version'', ''0.8.dev0'')], snodes = []\<rparr>" "''0.8.dev0''" runtime_string]
    upgrade_json_version_dispatch
      [of "\<lparr>sattrs = [(''tvm_version'', ''0.3'')], snodes = []\<rparr>" "''0.3''" runtime_string]
  by (simp add: startswith_def rbind_def json_loads_def json_dumps_def
      create_updater_06_to_07_def create_updater_07_to_08_def create_updater_08_to_09_def
      create_updater_def updater_loop.simps)

end
